theory Spec2Isabelle
  imports Main
begin

section \<open>The project setup script \<^verbatim>\<open>scripts/setup_python_project.py\<close>\<close>

text \<open>
  The script derives a project name from a prefix and the name of the working directory,
  creates a virtual environment, writes a source tree, initialises a git repository and,
  unless told otherwise, creates a repository on GitHub through the \<^verbatim>\<open>gh\<close> tool.

  A Python \<^verbatim>\<open>str\<close> is modelled as a \<^typ>\<open>string\<close>; one \<^typ>\<open>char\<close> stands for one code
  point below 256, and the character functions below are Python's on that range. A
  prefix or a directory name with a code point from 256 on is outside the model: there
  \<^verbatim>\<open>str.lower\<close> is no longer a map from one code point to one code point (the Kelvin
  sign 8490 becomes the letter k, the dotted capital I 304 becomes two code points), and
  nothing below speaks of such names.
\<close>

subsection \<open>Strings: \<^verbatim>\<open>str.lower\<close>, \<^verbatim>\<open>str.strip\<close>, \<^verbatim>\<open>str.replace\<close>, \<^verbatim>\<open>re.sub\<close>\<close>

text \<open>
  \<^verbatim>\<open>str.isspace\<close> and the class \<^verbatim>\<open>\s\<close> of \<^verbatim>\<open>re\<close> agree: tab to carriage return,
  the four separators 28 to 31, the space, NEL (133) and the no-break space (160).
\<close>

definition py_isspace :: "char \<Rightarrow> bool" where
  "py_isspace c =
     (let n = (of_char c :: nat)
      in (9 \<le> n \<and> n \<le> 13) \<or> (28 \<le> n \<and> n \<le> 32) \<or> n = 133 \<or> n = 160)"

text \<open>
  \<^verbatim>\<open>str.lower\<close> on one code point below 256: the letters A to Z and the Latin-1
  capitals 192 to 222 (the multiplication sign 215 apart) move up by 32, which sets the
  bit of weight 32; every other code point of this range is left as it is.
\<close>

definition py_isupper :: "char \<Rightarrow> bool" where
  "py_isupper c =
     (let n = (of_char c :: nat)
      in (65 \<le> n \<and> n \<le> 90) \<or> (192 \<le> n \<and> n \<le> 222 \<and> n \<noteq> 215))"

definition py_lower_char :: "char \<Rightarrow> char" where
  "py_lower_char c =
     (if py_isupper c
      then (case c of Char b0 b1 b2 b3 b4 b5 b6 b7 \<Rightarrow> Char b0 b1 b2 b3 b4 True b6 b7)
      else c)"

definition lower :: "string \<Rightarrow> string" where
  "lower s = map py_lower_char s"

definition strip :: "string \<Rightarrow> string" where
  "strip s = rev (dropWhile py_isspace (rev (dropWhile py_isspace s)))"

text \<open>\<^verbatim>\<open>s.replace('-', '_')\<close>: every hyphen becomes an underscore.\<close>

definition replace_hyphens :: "string \<Rightarrow> string" where
  "replace_hyphens s = map (\<lambda>c. if c = CHR ''-'' then CHR ''_'' else c) s"

text \<open>The character class \<^verbatim>\<open>[\s_]\<close>.\<close>

definition is_sep :: "char \<Rightarrow> bool" where
  "is_sep c = (py_isspace c \<or> c = CHR ''_'')"

text \<open>
  \<^verbatim>\<open>re.sub(r'[\s_]+', '-', s)\<close>: scanning from the left, a character of the class starts
  a match, the greedy \<^verbatim>\<open>+\<close> takes every following character of the class, the match is
  replaced by one hyphen and the scan goes on behind it; any other character is copied.
\<close>

function re_sub_seps :: "string \<Rightarrow> string" where
  "re_sub_seps [] = []"
| "re_sub_seps (c # cs) =
     (if is_sep c then CHR ''-'' # re_sub_seps (dropWhile is_sep cs)
      else c # re_sub_seps cs)"
  by pat_completeness auto
termination
  by (relation "measure length") (auto simp: le_imp_less_Suc length_dropWhile_le)

text \<open>
  The same scan, keeping with each character of the result whether it is the hyphen
  that replaced a match (\<open>True\<close>) or a character copied from the input (\<open>False\<close>).
\<close>

function re_sub_seps_marked :: "string \<Rightarrow> (char \<times> bool) list" where
  "re_sub_seps_marked [] = []"
| "re_sub_seps_marked (c # cs) =
     (if is_sep c then (CHR ''-'', True) # re_sub_seps_marked (dropWhile is_sep cs)
      else (c, False) # re_sub_seps_marked cs)"
  by pat_completeness auto
termination
  by (relation "measure length") (auto simp: le_imp_less_Suc length_dropWhile_le)

subsection \<open>The process and its surroundings\<close>

text \<open>
  What the script reads from its surroundings: the name of the working directory
  (\<^verbatim>\<open>os.path.basename(os.getcwd())\<close>), \<^verbatim>\<open>os.name\<close>, and the external programs. A program
  is installed or not; a command line that runs has a return code and a standard
  output; \<open>exn_text\<close> is \<^verbatim>\<open>str(e)\<close> of the \<^verbatim>\<open>CalledProcessError\<close> of a command line and
  return code; \<open>os_refuses\<close> holds of the paths the operating system will not create or
  write (permissions, a full disk, a name it rejects).
\<close>

record world =
  current_folder :: string
  os_name :: string
  installed :: "string \<Rightarrow> bool"
  returncode :: "string list \<Rightarrow> int"
  stdout_of :: "string list \<Rightarrow> string"
  exn_text :: "string list \<Rightarrow> int \<Rightarrow> string"
  os_refuses :: "string \<Rightarrow> bool"

subsection \<open>\<^verbatim>\<open>get_project_name\<close>\<close>

definition get_project_name :: "world \<Rightarrow> string \<Rightarrow> string" where
  "get_project_name w prefix =
     (let current_folder = current_folder w;
          sanitized_name = re_sub_seps (lower current_folder)
      in prefix @ ''-'' @ sanitized_name)"

subsection \<open>Exceptions, the state of a run, sequencing\<close>

text \<open>
  The exceptions the script can meet. \<^verbatim>\<open>subprocess.run(..., check=True)\<close> raises
  \<^verbatim>\<open>CalledProcessError\<close> (command line, return code) when the program ran and returned
  non-zero, and \<^verbatim>\<open>FileNotFoundError\<close>, a subclass of \<^verbatim>\<open>OSError\<close> and not of
  \<^verbatim>\<open>CalledProcessError\<close>, when the program cannot be found.
\<close>

datatype exn =
    CalledProcessError "string list" int
  | FileNotFoundError string
  | FileExistsError string
  | NotADirectoryError string
  | IsADirectoryError string
  | OSError string
  | SystemExit int

text \<open>
  The state a run changes: the files and directories below the working directory, by
  their path as written, the lines printed, one entry for each call of \<^verbatim>\<open>print\<close>, and
  the command lines handed to \<^verbatim>\<open>subprocess.run\<close>, in order. What the external programs
  do to the file system is outside the model.
\<close>

datatype node = Dir | File string

record state =
  fs :: "string \<rightharpoonup> node"
  out :: "string list"
  calls :: "string list list"

type_synonym 'a py = "state \<Rightarrow> (exn + 'a) \<times> state"

definition ret :: "'a \<Rightarrow> 'a py" where
  "ret x s = (Inr x, s)"

definition raise :: "exn \<Rightarrow> 'a py" where
  "raise e s = (Inl e, s)"

definition bind :: "'a py \<Rightarrow> ('a \<Rightarrow> 'b py) \<Rightarrow> 'b py" where
  "bind m f s = (case m s of (Inl e, s') \<Rightarrow> (Inl e, s') | (Inr x, s') \<Rightarrow> f x s')"

text \<open>Statements one after the other: the first exception ends the sequence.\<close>

fun seq :: "unit py list \<Rightarrow> unit py" where
  "seq [] s = (Inr (), s)"
| "seq (m # ms) s = (case m s of (Inl e, s') \<Rightarrow> (Inl e, s') | (Inr _, s') \<Rightarrow> seq ms s')"

text \<open>\<^verbatim>\<open>try: body  except subprocess.CalledProcessError as e: handler\<close>.\<close>

definition try_except_CalledProcessError ::
    "unit py \<Rightarrow> (string list \<Rightarrow> int \<Rightarrow> unit py) \<Rightarrow> unit py" where
  "try_except_CalledProcessError body handler s =
     (case body s of
        (Inl (CalledProcessError cmd rc), s') \<Rightarrow> handler cmd rc s'
      | r \<Rightarrow> r)"

definition print_line :: "string \<Rightarrow> unit py" where
  "print_line x s = (Inr (), s\<lparr>out := out s @ [x]\<rparr>)"

definition sys_exit :: "int \<Rightarrow> unit py" where
  "sys_exit n = raise (SystemExit n)"

subsection \<open>\<^verbatim>\<open>subprocess.run\<close> with \<^verbatim>\<open>check=True\<close>\<close>

definition subprocess_run :: "world \<Rightarrow> string \<Rightarrow> string list \<Rightarrow> string py" where
  "subprocess_run w prog args s =
     (let cmd = prog # args; s' = s\<lparr>calls := calls s @ [cmd]\<rparr>
      in if \<not> installed w prog then (Inl (FileNotFoundError prog), s')
         else if returncode w cmd \<noteq> 0 then (Inl (CalledProcessError cmd (returncode w cmd)), s')
         else (Inr (stdout_of w cmd), s'))"

text \<open>The calls whose result the script does not read.\<close>

definition run :: "world \<Rightarrow> string \<Rightarrow> string list \<Rightarrow> unit py" where
  "run w prog args = bind (subprocess_run w prog args) (\<lambda>_. ret ())"

subsection \<open>The file system: \<^verbatim>\<open>os.makedirs\<close> and \<^verbatim>\<open>open(path, "w")\<close>\<close>

text \<open>The directories a path runs through: its proper prefixes that end before a separator.\<close>

fun parents_from :: "string \<Rightarrow> string \<Rightarrow> string list" where
  "parents_from acc [] = []"
| "parents_from acc (c # cs) =
     (if c = CHR ''/'' \<and> acc \<noteq> [] then acc # parents_from (acc @ [c]) cs
      else parents_from (acc @ [c]) cs)"

definition parents :: "string \<Rightarrow> string list" where
  "parents p = parents_from [] p"

text \<open>
  \<^verbatim>\<open>os.makedirs(p, exist_ok=True)\<close> makes the directories of the path from the outermost
  inwards. A directory that is there is left alone; a file in the place of the last one
  is \<^verbatim>\<open>FileExistsError\<close>, a file in the place of an earlier one makes the next
  \<^verbatim>\<open>mkdir\<close> fail. The directories made before a failure stay.
\<close>

fun mkdirs :: "world \<Rightarrow> string list \<Rightarrow> unit py" where
  "mkdirs w [] s = (Inr (), s)"
| "mkdirs w (q # qs) s =
     (case fs s q of
        Some Dir \<Rightarrow> mkdirs w qs s
      | Some (File c) \<Rightarrow>
          (case qs of [] \<Rightarrow> (Inl (FileExistsError q), s)
                    | q' # _ \<Rightarrow> (Inl (NotADirectoryError q'), s))
      | None \<Rightarrow>
          (if os_refuses w q then (Inl (OSError q), s)
           else mkdirs w qs (s\<lparr>fs := (fs s)(q \<mapsto> Dir)\<rparr>)))"

definition makedirs :: "world \<Rightarrow> string \<Rightarrow> unit py" where
  "makedirs w p = mkdirs w (parents p @ [p])"

text \<open>
  \<^verbatim>\<open>with open(p, "w") as f:\<close> followed by the \<^verbatim>\<open>f.write\<close> calls, whose arguments make
  up \<open>content\<close>: the file is created or replaced.
\<close>

definition write_file :: "world \<Rightarrow> string \<Rightarrow> string \<Rightarrow> unit py" where
  "write_file w p content s =
     (case find (\<lambda>q. fs s q \<noteq> Some Dir) (parents p) of
        Some q \<Rightarrow>
          (if fs s q = None then (Inl (FileNotFoundError p), s)
           else (Inl (NotADirectoryError p), s))
      | None \<Rightarrow>
          (if fs s p = Some Dir then (Inl (IsADirectoryError p), s)
           else if os_refuses w p then (Inl (OSError p), s)
           else (Inr (), s\<lparr>fs := (fs s)(p \<mapsto> File content)\<rparr>)))"

subsection \<open>\<^verbatim>\<open>setup_virtual_environment\<close>\<close>

definition setup_virtual_environment :: "world \<Rightarrow> string \<Rightarrow> unit py" where
  "setup_virtual_environment w project_name =
     (let pip_path = (if os_name w = ''nt'' then ''.venv/Scripts/pip'' else ''.venv/bin/pip'')
      in seq
        [print_line (''Creating virtual environment for '' @ project_name @ ''...''),
         run w ''python3'' [''-m'', ''venv'', ''.venv''],
         write_file w ''requirements.txt'' ''# Project dependencies\<newline>'',
         write_file w ''requirements-dev.txt''
           (concat [''# Development dependencies\<newline>'', ''pytest\<newline>'', ''black\<newline>'',
                    ''flake8\<newline>'', ''mypy\<newline>'']),
         run w pip_path [''install'', ''--upgrade'', ''pip''],
         run w pip_path [''install'', ''-r'', ''requirements-dev.txt''],
         print_line ''Virtual environment created and dependencies installed.''])"

subsection \<open>\<^verbatim>\<open>create_project_structure\<close>\<close>

definition init_py_content :: "string \<Rightarrow> string" where
  \<open>init_py_content project_name =
     concat [''"""Main package for '' @ project_name @ ''."""\<newline>\<newline>'',
             ''__version__ = '' @ [CHR 0x27] @ ''0.1.0'' @ [CHR 0x27] @ ''\<newline>'']\<close>

definition main_py_content :: "string \<Rightarrow> string" where
  \<open>main_py_content project_name =
     concat [''"""Main module for '' @ project_name @ ''."""\<newline>\<newline>'',
             ''def main():\<newline>'',
             ''    """Main entry point."""\<newline>'',
             ''    print("Hello, world!")\<newline>\<newline>\<newline>'',
             ''if __name__ == "__main__":\<newline>'',
             ''    main()\<newline>'']\<close>

definition test_main_py_content :: "string \<Rightarrow> string" where
  \<open>test_main_py_content project_name =
     concat [''"""Tests for '' @ project_name @ ''."""\<newline>\<newline>'',
             ''from '' @ replace_hyphens project_name @ ''.main import main\<newline>\<newline>'',
             ''def test_main():\<newline>'',
             ''    """Test the main function."""\<newline>'',
             ''    # This is a placeholder test\<newline>'',
             ''    assert True\<newline>'']\<close>

definition setup_py_content :: "string \<Rightarrow> string" where
  \<open>setup_py_content project_name =
     concat [''"""Package setup."""\<newline>\<newline>'',
             ''from setuptools import setup, find_packages\<newline>\<newline>'',
             ''setup(\<newline>'',
             ''    name="'' @ project_name @ ''",\<newline>'',
             ''    version="0.1.0",\<newline>'',
             ''    packages=find_packages(where="src"),\<newline>'',
             ''    package_dir={"": "src"},\<newline>'',
             ''    install_requires=[\<newline>'',
             ''        # List your dependencies here\<newline>'',
             ''    ],\<newline>'',
             '')\<newline>'']\<close>

definition pyproject_toml_content :: string where
  \<open>pyproject_toml_content =
     concat [''[build-system]\<newline>'',
             ''requires = ["setuptools>=42", "wheel"]\<newline>'',
             ''build-backend = "setuptools.build_meta"\<newline>\<newline>'',
             ''[tool.black]\<newline>'',
             ''line-length = 88\<newline>'',
             ''target-version = ["py38"]\<newline>'']\<close>

definition create_project_structure :: "world \<Rightarrow> string \<Rightarrow> unit py" where
  "create_project_structure w project_name =
     (let package_dir = ''src/'' @ replace_hyphens project_name
      in seq
        [print_line (''Creating project structure for '' @ project_name @ ''...''),
         makedirs w (''src/'' @ replace_hyphens project_name),
         makedirs w ''tests'',
         makedirs w ''docs'',
         write_file w (package_dir @ ''/__init__.py'') (init_py_content project_name),
         write_file w (package_dir @ ''/main.py'') (main_py_content project_name),
         write_file w ''tests/test_main.py'' (test_main_py_content project_name),
         write_file w ''setup.py'' (setup_py_content project_name),
         write_file w ''pyproject.toml'' pyproject_toml_content,
         print_line ''Project structure created.''])"

subsection \<open>\<^verbatim>\<open>get_github_username\<close>\<close>

definition get_github_username :: "world \<Rightarrow> string py" where
  "get_github_username w s =
     (case subprocess_run w ''gh'' [''api'', ''user'', ''--jq'', ''.login''] s of
        (Inr stdout, s') \<Rightarrow>
          (let username = strip stdout
           in (Inr (if username \<noteq> [] then username else ''yourusername''), s'))
      | (Inl (CalledProcessError cmd rc), s') \<Rightarrow> (Inr ''yourusername'', s')
      | (Inl e, s') \<Rightarrow> (Inl e, s'))"

subsection \<open>\<^verbatim>\<open>setup_git\<close>\<close>

definition gitignore_content :: string where
  "gitignore_content =
     concat [''# Python\<newline>'', ''__pycache__/\<newline>'', ''*.py[cod]\<newline>'', ''*$py.class\<newline>'',
             ''*.so\<newline>'', ''.Python\<newline>'', ''env/\<newline>'', ''build/\<newline>'',
             ''develop-eggs/\<newline>'', ''dist/\<newline>'', ''downloads/\<newline>'', ''eggs/\<newline>'',
             ''.eggs/\<newline>'', ''lib/\<newline>'', ''lib64/\<newline>'', ''parts/\<newline>'',
             ''sdist/\<newline>'', ''var/\<newline>'', ''*.egg-info/\<newline>'', ''.installed.cfg\<newline>'',
             ''*.egg\<newline>\<newline>'',
             ''# Virtual Environment\<newline>'', ''.venv/\<newline>'', ''venv/\<newline>'', ''ENV/\<newline>\<newline>'',
             ''# IDE\<newline>'', ''.idea/\<newline>'', ''.vscode/\<newline>'', ''*.swp\<newline>'',
             ''*.swo\<newline>\<newline>'',
             ''# Testing\<newline>'', ''.coverage\<newline>'', ''htmlcov/\<newline>'',
             ''.pytest_cache/\<newline>'']"

definition readme_content :: "string \<Rightarrow> string \<Rightarrow> string" where
  "readme_content github_username project_name =
     concat [''# '' @ project_name @ ''\<newline>\<newline>'',
             ''## Description\<newline>\<newline>'',
             ''A brief description of the project.\<newline>\<newline>'',
             ''## Installation\<newline>\<newline>'',
             ''```bash\<newline>'',
             ''# Clone the repository\<newline>'',
             ''git clone https://github.com/'' @ github_username @ ''/'' @ project_name
               @ ''.git\<newline>'',
             ''cd '' @ project_name @ ''\<newline>\<newline>'',
             ''# Create and activate virtual environment\<newline>'',
             ''python -m venv .venv\<newline>'',
             ''source .venv/bin/activate  # On Windows: .venv'' @ [CHR 0x5C] @ ''Scripts''
               @ [CHR 0x5C] @ ''activate\<newline>\<newline>'',
             ''# Install dependencies\<newline>'',
             ''pip install -r requirements.txt\<newline>'',
             ''```\<newline>\<newline>'',
             ''## Usage\<newline>\<newline>'',
             ''```python\<newline>'',
             ''from '' @ replace_hyphens project_name @ ''.main import main\<newline>\<newline>'',
             ''main()\<newline>'',
             ''```\<newline>'']"

text \<open>
  The five lines that end each of the three blocks of manual instructions in
  \<^verbatim>\<open>setup_git\<close>: after a failed \<^verbatim>\<open>gh repo create\<close>, after a failed \<^verbatim>\<open>gh --version\<close>,
  and when GitHub is not used.
\<close>

definition manual_steps :: "string \<Rightarrow> string \<Rightarrow> string list" where
  "manual_steps github_username project_name =
     [''1. Create a new repository named '' @ [CHR 0x27] @ project_name @ [CHR 0x27]
        @ '' on GitHub'',
      ''2. Run the following commands to connect to GitHub:'',
      ''   git remote add origin https://github.com/'' @ github_username @ ''/''
        @ project_name @ ''.git'',
      ''   git branch -M main'',
      ''   git push -u origin main'']"

definition create_failed_lines :: "string \<Rightarrow> string \<Rightarrow> string \<Rightarrow> string list" where
  "create_failed_lines e github_username project_name =
     [''Error creating GitHub repository: '' @ e,
      ''You can manually create and connect to GitHub repository:'']
     @ manual_steps github_username project_name"

definition gh_not_found_lines :: "string \<Rightarrow> string \<Rightarrow> string list" where
  "gh_not_found_lines github_username project_name =
     [''GitHub CLI (gh) not found. Please install GitHub CLI to automate repository creation.'',
      ''You can install it from: https://cli.github.com/'',
      ''\<newline>Manual GitHub setup:'']
     @ manual_steps github_username project_name"

definition skipping_lines :: "string \<Rightarrow> string \<Rightarrow> string list" where
  "skipping_lines github_username project_name =
     [''\<newline>Skipping GitHub repository creation as requested.'',
      ''You can manually create and connect to GitHub repository:'']
     @ manual_steps github_username project_name"

definition invalid_visibility_warning :: "string \<Rightarrow> string" where
  "invalid_visibility_warning visibility =
     ''Warning: Invalid visibility '' @ [CHR 0x27] @ visibility @ [CHR 0x27]
       @ ''. Defaulting to '' @ [CHR 0x27] @ ''private'' @ [CHR 0x27] @ ''.''"

text \<open>
  Lines 148 to 259 of \<^verbatim>\<open>setup_git\<close>, with the account name and the visibility that the
  lines before them have settled: the two files, the local repository, and the remote
  one or the instructions.
\<close>

definition setup_git_steps :: "world \<Rightarrow> string \<Rightarrow> bool \<Rightarrow> string \<Rightarrow> string \<Rightarrow> unit py" where
  "setup_git_steps w project_name use_github github_username visibility =
     seq
       [write_file w ''.gitignore'' gitignore_content,
        write_file w ''README.md'' (readme_content github_username project_name),
        run w ''git'' [''init''],
        run w ''git'' [''add'', ''.''],
        run w ''git'' [''commit'', ''-m'', ''Initial commit with project structure''],
        if use_github then
          try_except_CalledProcessError
            (seq
               [run w ''gh'' [''--version''],
                print_line (''Creating GitHub repository for '' @ project_name @ ''...''),
                try_except_CalledProcessError
                  (seq
                     [run w ''gh''
                        [''repo'', ''create'', project_name, ''--'' @ visibility,
                         ''--source=.'', ''--remote=origin''],
                      print_line (''GitHub repository created: '' @ project_name),
                      run w ''git'' [''push'', ''-u'', ''origin'', ''main''],
                      print_line ''Initial commit pushed to GitHub.''])
                  (\<lambda>cmd rc.
                     seq (map print_line
                            (create_failed_lines (exn_text w cmd rc) github_username
                               project_name)))])
            (\<lambda>cmd rc. seq (map print_line (gh_not_found_lines github_username project_name)))
        else seq (map print_line (skipping_lines github_username project_name)),
        print_line ''\<newline>Git repository initialized with initial commit.'']"

definition setup_git :: "world \<Rightarrow> string \<Rightarrow> bool \<Rightarrow> string \<Rightarrow> unit py" where
  "setup_git w project_name use_github visibility_arg =
     bind (print_line ''Setting up Git repository...'') (\<lambda>_.
     bind (if use_github then get_github_username w else ret ''yourusername'')
       (\<lambda>github_username.
     bind (if visibility_arg \<notin> set [''public'', ''private'']
           then bind (print_line (invalid_visibility_warning visibility_arg))
                  (\<lambda>_. ret ''private'')
           else ret visibility_arg)
       (\<lambda>visibility.
     setup_git_steps w project_name use_github github_username visibility)))"

subsection \<open>\<^verbatim>\<open>main\<close>\<close>

text \<open>Lines 276 to 288 of \<^verbatim>\<open>main\<close>: the three steps and the closing messages.\<close>

definition run_setup :: "world \<Rightarrow> string \<Rightarrow> bool \<Rightarrow> string \<Rightarrow> unit py" where
  "run_setup w project_name use_github visibility =
     seq
       [print_line (''Setting up Python project: '' @ project_name),
        setup_virtual_environment w project_name,
        create_project_structure w project_name,
        setup_git w project_name use_github visibility,
        print_line (''\<newline>Project setup complete for '' @ project_name @ ''!''),
        print_line ''Don't forget to activate your virtual environment:'',
        if os_name w = ''nt''
        then print_line (''.venv'' @ [CHR 0x5C] @ ''Scripts'' @ [CHR 0x5C] @ ''activate'')
        else print_line ''source .venv/bin/activate'']"

definition main :: "world \<Rightarrow> string list \<Rightarrow> unit py" where
  "main w argv =
     (if length argv < 2 then
        seq [print_line ''Error: Missing prefix argument.'',
             print_line ''Usage: ./setup_python_project.py <prefix> [--no-github] [--public]'',
             sys_exit 1]
      else
        (let prefix = argv ! 1;
             project_name = get_project_name w prefix;
             use_github = (''--no-github'' \<notin> set argv);
             visibility = (if ''--public'' \<in> set argv then ''public'' else ''private'')
         in run_setup w project_name use_github visibility))"

text \<open>
  The exit code of the process: 0 when \<^verbatim>\<open>main\<close> returns, the argument of
  \<^verbatim>\<open>sys.exit\<close>, and 1 for any other exception that reaches the top.
\<close>

definition exit_code :: "(exn + unit) \<times> state \<Rightarrow> int" where
  "exit_code r = (case fst r of Inr _ \<Rightarrow> 0 | Inl (SystemExit n) \<Rightarrow> n | Inl _ \<Rightarrow> 1)"

subsection \<open>The specification's wording of the project name\<close>

text \<open>
  The specification describes the name in words: the directory name in lower case,
  every maximal run of whitespace or underscore characters replaced by one hyphen.
  \<open>runs P s\<close> cuts \<open>s\<close> into its maximal runs of characters on which \<open>P\<close> agrees.
\<close>

function runs :: "(char \<Rightarrow> bool) \<Rightarrow> string \<Rightarrow> string list" where
  "runs P [] = []"
| "runs P (c # cs) =
     (c # takeWhile (\<lambda>d. P d = P c) cs) # runs P (dropWhile (\<lambda>d. P d = P c) cs)"
  by pat_completeness auto
termination
  by (relation "measure (\<lambda>(P, s). length s)") (auto simp: le_imp_less_Suc length_dropWhile_le)

definition collapse_runs :: "string \<Rightarrow> string" where
  "collapse_runs s =
     concat (map (\<lambda>r. if list_all is_sep r then ''-'' else r) (runs is_sep s))"

definition spec_derive :: "string \<Rightarrow> string \<Rightarrow> string" where
  "spec_derive prefix current_directory_name =
     prefix @ ''-'' @ collapse_runs (lower current_directory_name)"

text \<open>
  The pattern \<^verbatim>\<open>^<escaped prefix>-[a-z0-9-]+$\<close>: the prefix taken literally, a hyphen,
  and one or more characters of the class \<^verbatim>\<open>[a-z0-9-]\<close> up to the end.
\<close>

definition in_name_class :: "char \<Rightarrow> bool" where
  "in_name_class c =
     (let n = (of_char c :: nat)
      in (97 \<le> n \<and> n \<le> 122) \<or> (48 \<le> n \<and> n \<le> 57) \<or> c = CHR ''-'')"

definition matches_name_pattern :: "string \<Rightarrow> string \<Rightarrow> bool" where
  "matches_name_pattern prefix s =
     (let k = length prefix + 1; rest = drop k s
      in take k s = prefix @ ''-'' \<and> rest \<noteq> [] \<and> list_all in_name_class rest)"

text \<open>
  Characters of a directory name that end up in the class: ASCII letters and digits,
  the hyphen, and the characters that are collapsed.
\<close>

definition plain_name_char :: "char \<Rightarrow> bool" where
  "plain_name_char c =
     (let n = (of_char c :: nat)
      in is_sep c \<or> (65 \<le> n \<and> n \<le> 90) \<or> (97 \<le> n \<and> n \<le> 122) \<or> (48 \<le> n \<and> n \<le> 57)
         \<or> c = CHR ''-'')"

subsection \<open>Observations of a run\<close>

text \<open>The lines printed and the commands run since the state \<open>s\<close>.\<close>

definition printed_since :: "state \<Rightarrow> (exn + 'a) \<times> state \<Rightarrow> string list" where
  "printed_since s r = drop (length (out s)) (out (snd r))"

definition called_since :: "state \<Rightarrow> (exn + 'a) \<times> state \<Rightarrow> string list list" where
  "called_since s r = drop (length (calls s)) (calls (snd r))"

text \<open>
  A step that only appends to the lines printed and to the commands run, and runs
  commands of the set \<open>C\<close> only.
\<close>

definition appends :: "string list set \<Rightarrow> 'a py \<Rightarrow> bool" where
  "appends C m =
     (\<forall>s. \<exists>ls cs. out (snd (m s)) = out s @ ls \<and> calls (snd (m s)) = calls s @ cs
               \<and> set cs \<subseteq> C)"

text \<open>Running a step a second time when the first run returned.\<close>

definition twice :: "unit py \<Rightarrow> unit py" where
  "twice m = seq [m, m]"

subsection \<open>Concrete surroundings\<close>

text \<open>
  A POSIX machine in a directory named \<open>folder\<close>, with the programs \<open>inst\<close> installed and
  the return codes \<open>rc\<close>; \<^verbatim>\<open>gh api user\<close> prints \<^verbatim>\<open>octocat\<close>; the operating system refuses
  nothing. The empty state is a fresh process in an empty directory.
\<close>

definition posix_world :: "string \<Rightarrow> (string \<Rightarrow> bool) \<Rightarrow> (string list \<Rightarrow> int) \<Rightarrow> world" where
  "posix_world folder inst rc =
     \<lparr>current_folder = folder, os_name = ''posix'', installed = inst, returncode = rc,
      stdout_of = (\<lambda>_. ''octocat\<newline>''),
      exn_text = (\<lambda>cmd n. ''Command returned non-zero exit status.''),
      os_refuses = (\<lambda>_. False)\<rparr>"

definition empty_state :: state where
  "empty_state = \<lparr>fs = Map.empty, out = [], calls = []\<rparr>"

definition world_all_ok :: "string \<Rightarrow> world" where
  "world_all_ok folder = posix_world folder (\<lambda>_. True) (\<lambda>_. 0)"

definition world_create_fails :: world where
  "world_create_fails =
     posix_world ''my_project'' (\<lambda>_. True)
       (\<lambda>cmd. if take 3 cmd = [''gh'', ''repo'', ''create''] then 1 else 0)"

definition world_push_fails :: world where
  "world_push_fails =
     posix_world ''my_project'' (\<lambda>_. True)
       (\<lambda>cmd. if cmd = [''git'', ''push'', ''-u'', ''origin'', ''main''] then 1 else 0)"

definition world_no_gh :: world where
  "world_no_gh = posix_world ''my_project'' (\<lambda>prog. prog \<noteq> ''gh'') (\<lambda>_. 0)"

subsection \<open>Names for what a run prints and calls\<close>

text \<open>
  The account name \<^verbatim>\<open>get_github_username\<close> returns when \<^verbatim>\<open>gh\<close> can be run, the three
  commands of \<^verbatim>\<open>setup_virtual_environment\<close>, the five lines printed up to the end of
  \<^verbatim>\<open>create_project_structure\<close>, the three lines that end \<^verbatim>\<open>main\<close>, and the argument
  vector of the example runs.
\<close>

definition resolved_username :: "world \<Rightarrow> string" where
  "resolved_username w =
     (let cmd = [''gh'', ''api'', ''user'', ''--jq'', ''.login'']
      in if returncode w cmd = 0 \<and> strip (stdout_of w cmd) \<noteq> [] then strip (stdout_of w cmd)
         else ''yourusername'')"

definition venv_commands :: "world \<Rightarrow> string list list" where
  "venv_commands w =
     (let pip_path = (if os_name w = ''nt'' then ''.venv/Scripts/pip'' else ''.venv/bin/pip'')
      in [[''python3'', ''-m'', ''venv'', ''.venv''],
          [pip_path, ''install'', ''--upgrade'', ''pip''],
          [pip_path, ''install'', ''-r'', ''requirements-dev.txt'']])"

definition opening_lines :: "string \<Rightarrow> string list" where
  "opening_lines project_name =
     [''Setting up Python project: '' @ project_name,
      ''Creating virtual environment for '' @ project_name @ ''...'',
      ''Virtual environment created and dependencies installed.'',
      ''Creating project structure for '' @ project_name @ ''...'',
      ''Project structure created.'']"

definition closing_lines :: "world \<Rightarrow> string \<Rightarrow> string list" where
  "closing_lines w project_name =
     [''\<newline>Project setup complete for '' @ project_name @ ''!'',
      ''Don't forget to activate your virtual environment:'',
      if os_name w = ''nt''
      then ''.venv'' @ [CHR 0x5C] @ ''Scripts'' @ [CHR 0x5C] @ ''activate''
      else ''source .venv/bin/activate'']"

definition demo_argv :: "string list" where
  "demo_argv = [''setup_python_project.py'', ''acme'']"

text \<open>
  A step that, when it returns, has printed the lines \<open>ls\<close> and run the commands \<open>cs\<close>;
  a step that never raises \<^verbatim>\<open>SystemExit\<close>.
\<close>

definition yields :: "string list \<Rightarrow> string list list \<Rightarrow> unit py \<Rightarrow> bool" where
  "yields ls cs m =
     (\<forall>s s'. m s = (Inr (), s') \<longrightarrow> out s' = out s @ ls \<and> calls s' = calls s @ cs)"

definition no_exit :: "'a py \<Rightarrow> bool" where
  "no_exit m = (\<forall>s n. fst (m s) \<noteq> Inl (SystemExit n))"


definition demo_argv_no_github :: "string list" where
  "demo_argv_no_github = [''setup_python_project.py'', ''acme'', ''--no-github'']"

definition demo_argv_flag :: "string list" where
  "demo_argv_flag = [''setup_python_project.py'', ''--no-github'']"

text \<open>
  A step that prints the lines \<open>ls\<close> in this order, all of them when it returns and the
  first few of them when an exception ends it.
\<close>

definition narrates :: "string list \<Rightarrow> 'a py \<Rightarrow> bool" where
  "narrates ls m =
     (\<forall>s. \<exists>k\<le>length ls. out (snd (m s)) = out s @ take k ls
               \<and> (\<forall>x. fst (m s) = Inr x \<longrightarrow> k = length ls))"

section \<open>Properties\<close>

subsection \<open>The project name\<close>

lemma re_sub_seps_nonseps:
  "re_sub_seps cs = takeWhile (\<lambda>d. \<not> is_sep d) cs @ re_sub_seps (dropWhile (\<lambda>d. \<not> is_sep d) cs)"
  by (induction cs) auto

lemma re_sub_seps_collapse_runs: "re_sub_seps s = collapse_runs s"
proof (induction "length s" arbitrary: s rule: less_induct)
  case less
  show ?case
  proof (cases s)
    case Nil
    then show ?thesis by (simp add: collapse_runs_def)
  next
    case (Cons c cs)
    show ?thesis
    proof (cases "is_sep c")
      case True
      then have eq: "(\<lambda>d. is_sep d = is_sep c) = is_sep" by auto
      have all: "list_all is_sep (c # takeWhile is_sep cs)"
        using True by (auto simp: list_all_iff dest: set_takeWhileD)
      have "length (dropWhile is_sep cs) < length s"
        using Cons by (simp add: le_imp_less_Suc length_dropWhile_le)
      then have "re_sub_seps (dropWhile is_sep cs) = collapse_runs (dropWhile is_sep cs)"
        by (rule less)
      with True all Cons show ?thesis
        by (simp add: collapse_runs_def eq)
    next
      case False
      then have eq: "(\<lambda>d. is_sep d = is_sep c) = (\<lambda>d. \<not> is_sep d)" by auto
      have "length (dropWhile (\<lambda>d. \<not> is_sep d) cs) < length s"
        using Cons by (simp add: le_imp_less_Suc length_dropWhile_le)
      then have ih: "re_sub_seps (dropWhile (\<lambda>d. \<not> is_sep d) cs)
                     = collapse_runs (dropWhile (\<lambda>d. \<not> is_sep d) cs)"
        by (rule less)
      have "re_sub_seps (c # cs) = c # takeWhile (\<lambda>d. \<not> is_sep d) cs
              @ re_sub_seps (dropWhile (\<lambda>d. \<not> is_sep d) cs)"
        using False re_sub_seps_nonseps [of cs] by simp
      with False ih Cons show ?thesis
        by (simp add: collapse_runs_def eq)
    qed
  qed
qed

lemma re_sub_seps_Nil_iff: "re_sub_seps s = [] \<longleftrightarrow> s = []"
  by (cases s) auto

lemma all_dropWhile_seps:
  "(\<forall>c\<in>set (dropWhile is_sep cs). is_sep c \<or> P c) \<longleftrightarrow> (\<forall>c\<in>set cs. is_sep c \<or> P c)"
proof -
  have "set cs = set (takeWhile is_sep cs) \<union> set (dropWhile is_sep cs)"
    by (metis set_append takeWhile_dropWhile_id)
  then show ?thesis by (auto dest: set_takeWhileD)
qed

lemma list_all_re_sub_seps:
  "P (CHR ''-'') \<Longrightarrow> list_all P (re_sub_seps s) \<longleftrightarrow> (\<forall>c\<in>set s. is_sep c \<or> P c)"
proof (induction s rule: re_sub_seps.induct)
  case 1
  show ?case by simp
next
  case (2 c cs)
  then show ?case
    by (cases "is_sep c") (simp_all add: all_dropWhile_seps)
qed

lemma char_eq_code: "c = d \<longleftrightarrow> (of_char c :: nat) = of_char d"
  by simp

lemma lower_char_code: "py_isupper c \<Longrightarrow> of_char (py_lower_char c) = (of_char c :: nat) + 32"
proof (cases c)
  case (Char b0 b1 b2 b3 b4 b5 b6 b7)
  assume up: "py_isupper c"
  have "\<not> b5"
  proof
    assume b5
    with up Char show False
      by (cases b6; cases b7; cases b4; cases b3; cases b2; cases b1; cases b0)
         (simp_all add: py_isupper_def)
  qed
  with up Char show ?thesis by (simp add: py_lower_char_def)
qed

lemma is_sep_code:
  "is_sep c \<longleftrightarrow> (9 \<le> (of_char c :: nat) \<and> (of_char c :: nat) \<le> 13)
     \<or> (28 \<le> (of_char c :: nat) \<and> (of_char c :: nat) \<le> 32)
     \<or> (of_char c :: nat) = 133 \<or> (of_char c :: nat) = 160 \<or> (of_char c :: nat) = 95"
  by (simp add: is_sep_def py_isspace_def Let_def char_eq_code [of c "CHR ''_''"])

lemma in_name_class_code:
  "in_name_class c \<longleftrightarrow> (97 \<le> (of_char c :: nat) \<and> (of_char c :: nat) \<le> 122)
     \<or> (48 \<le> (of_char c :: nat) \<and> (of_char c :: nat) \<le> 57) \<or> (of_char c :: nat) = 45"
  by (simp add: in_name_class_def Let_def char_eq_code [of c "CHR ''-''"])

lemma plain_name_char_code:
  "plain_name_char c \<longleftrightarrow> is_sep c
     \<or> (65 \<le> (of_char c :: nat) \<and> (of_char c :: nat) \<le> 90)
     \<or> (97 \<le> (of_char c :: nat) \<and> (of_char c :: nat) \<le> 122)
     \<or> (48 \<le> (of_char c :: nat) \<and> (of_char c :: nat) \<le> 57) \<or> (of_char c :: nat) = 45"
  by (simp add: plain_name_char_def Let_def char_eq_code [of c "CHR ''-''"])

lemma py_isupper_code:
  "py_isupper c \<longleftrightarrow> (65 \<le> (of_char c :: nat) \<and> (of_char c :: nat) \<le> 90)
     \<or> (192 \<le> (of_char c :: nat) \<and> (of_char c :: nat) \<le> 222 \<and> (of_char c :: nat) \<noteq> 215)"
  by (simp add: py_isupper_def Let_def)

lemma is_sep_lower: "is_sep (py_lower_char c) = is_sep c"
proof (cases "py_isupper c")
  case True
  define n where "n = (of_char c :: nat)"
  from True have up: "(65 \<le> n \<and> n \<le> 90) \<or> (192 \<le> n \<and> n \<le> 222 \<and> n \<noteq> 215)"
    by (simp add: py_isupper_code n_def)
  have lo: "(of_char (py_lower_char c) :: nat) = n + 32"
    using lower_char_code [OF True] by (simp add: n_def)
  have "\<not> is_sep (py_lower_char c)"
    unfolding is_sep_code lo using up by arith
  moreover have "\<not> is_sep c"
    unfolding is_sep_code n_def [symmetric] using up by arith
  ultimately show ?thesis by simp
next
  case False
  then show ?thesis by (simp add: py_lower_char_def)
qed

lemma name_class_lower:
  "plain_name_char c \<Longrightarrow> is_sep c \<or> in_name_class (py_lower_char c)"
proof (cases "py_isupper c")
  case True
  assume plain: "plain_name_char c"
  define n where "n = (of_char c :: nat)"
  from True have up: "(65 \<le> n \<and> n \<le> 90) \<or> (192 \<le> n \<and> n \<le> 222 \<and> n \<noteq> 215)"
    by (simp add: py_isupper_code n_def)
  have lo: "(of_char (py_lower_char c) :: nat) = n + 32"
    using lower_char_code [OF True] by (simp add: n_def)
  from plain have "is_sep c \<or> (65 \<le> n \<and> n \<le> 90)"
    unfolding plain_name_char_code n_def [symmetric] using up by arith
  moreover have "in_name_class (py_lower_char c)" if "65 \<le> n \<and> n \<le> 90"
    unfolding in_name_class_code lo using that by arith
  ultimately show ?thesis by blast
next
  case False
  assume "plain_name_char c"
  then have "is_sep c \<or> in_name_class c"
    unfolding plain_name_char_code in_name_class_code
    using False by (auto simp: py_isupper_code)
  with False show ?thesis by (simp add: py_lower_char_def)
qed

lemma matches_get_project_name:
  assumes ne: "current_folder w \<noteq> []"
    and plain: "list_all plain_name_char (current_folder w)"
  shows "matches_name_pattern prefix (get_project_name w prefix)"
proof -
  have nc: "in_name_class (CHR ''-'')" by (simp add: in_name_class_def)
  have "is_sep d \<or> in_name_class d" if "d \<in> set (lower (current_folder w))" for d
  proof -
    from that obtain c where c: "c \<in> set (current_folder w)" and d: "d = py_lower_char c"
      by (auto simp: lower_def)
    from plain c have "plain_name_char c" by (simp add: list_all_iff)
    then have "is_sep c \<or> in_name_class (py_lower_char c)" by (rule name_class_lower)
    then show ?thesis by (simp add: d is_sep_lower)
  qed
  then have "list_all in_name_class (re_sub_seps (lower (current_folder w)))"
    by (simp add: list_all_re_sub_seps [of in_name_class, OF nc])
  with ne show ?thesis
    by (simp add: matches_name_pattern_def get_project_name_def re_sub_seps_Nil_iff lower_def)
qed

lemma marked_fst: "map fst (re_sub_seps_marked s) = re_sub_seps s"
  by (induction s rule: re_sub_seps_marked.induct) auto

lemma marked_hyphen: "(c, True) \<in> set (re_sub_seps_marked s) \<Longrightarrow> c = CHR ''-''"
  by (induction s rule: re_sub_seps_marked.induct) (auto split: if_splits)

lemma marked_head: "s \<noteq> [] \<Longrightarrow> \<not> is_sep (hd s) \<Longrightarrow> \<not> snd (hd (re_sub_seps_marked s))"
  by (cases s) auto

lemma marked_Nil_iff: "re_sub_seps_marked s = [] \<longleftrightarrow> s = []"
  by (cases s) auto

lemma marked_not_adjacent:
  "Suc i < length (re_sub_seps_marked s) \<Longrightarrow> snd (re_sub_seps_marked s ! i)
     \<Longrightarrow> \<not> snd (re_sub_seps_marked s ! Suc i)"
proof (induction s arbitrary: i rule: re_sub_seps_marked.induct)
  case 1
  then show ?case by simp
next
  case (2 c cs)
  show ?case
  proof (cases "is_sep c")
    case True
    let ?d = "dropWhile is_sep cs"
    show ?thesis
    proof (cases i)
      case 0
      from 2(3) True 0 have ne: "?d \<noteq> []" by (auto simp: marked_Nil_iff)
      then have "\<not> is_sep (hd ?d)" by (rule hd_dropWhile)
      with ne have "\<not> snd (hd (re_sub_seps_marked ?d))" by (rule marked_head)
      moreover from ne have "re_sub_seps_marked ?d \<noteq> []" by (simp add: marked_Nil_iff)
      ultimately show ?thesis using True 0 by (simp add: hd_conv_nth)
    next
      case (Suc j)
      with 2(1) [OF True, of j] 2(3,4) True show ?thesis by simp
    qed
  next
    case False
    show ?thesis
    proof (cases i)
      case 0
      with 2(4) False show ?thesis by simp
    next
      case (Suc j)
      with 2(2) [OF False, of j] 2(3,4) False show ?thesis by simp
    qed
  qed
qed

subsection \<open>Sequencing\<close>

lemma seq_Cons_Inr: "m s = (Inr (), s') \<Longrightarrow> seq (m # ms) s = seq ms s'"
  by simp

lemma seq_Cons_Inl: "m s = (Inl e, s') \<Longrightarrow> seq (m # ms) s = (Inl e, s')"
  by simp

lemma seq_prints: "seq (map print_line ls) s = (Inr (), s\<lparr>out := out s @ ls\<rparr>)"
  by (induction ls arbitrary: s) (simp_all add: print_line_def)

subsection \<open>Steps only append to the output and to the commands\<close>

lemma appendsI:
  "(\<And>s. \<exists>ls cs. out (snd (m s)) = out s @ ls \<and> calls (snd (m s)) = calls s @ cs \<and> set cs \<subseteq> C)
     \<Longrightarrow> appends C m"
  by (simp add: appends_def)

lemma appendsD:
  "appends C m \<Longrightarrow>
     \<exists>ls cs. out (snd (m s)) = out s @ ls \<and> calls (snd (m s)) = calls s @ cs \<and> set cs \<subseteq> C"
  by (simp add: appends_def)

lemma appends_ret: "appends C (ret x)"
  by (simp add: appends_def ret_def)

lemma appends_raise: "appends C (raise e)"
  by (simp add: appends_def raise_def)

lemma appends_print_line: "appends C (print_line x)"
  by (simp add: appends_def print_line_def)

lemma appends_sys_exit: "appends C (sys_exit n)"
  by (simp add: sys_exit_def appends_raise)

lemma appends_bind:
  assumes m: "appends C m" and f: "\<And>x. appends C (f x)"
  shows "appends C (bind m f)"
proof (rule appendsI)
  fix s
  from appendsD [OF m, of s] obtain ls cs where
    1: "out (snd (m s)) = out s @ ls" "calls (snd (m s)) = calls s @ cs" "set cs \<subseteq> C"
    by blast
  show "\<exists>ls cs. out (snd (bind m f s)) = out s @ ls \<and> calls (snd (bind m f s)) = calls s @ cs
          \<and> set cs \<subseteq> C"
  proof (cases "m s")
    case (Pair r s')
    show ?thesis
    proof (cases r)
      case (Inl e)
      with Pair 1 show ?thesis by (simp add: bind_def)
    next
      case (Inr x)
      from appendsD [OF f, of x s'] obtain ls' cs' where
        2: "out (snd (f x s')) = out s' @ ls'" "calls (snd (f x s')) = calls s' @ cs'"
           "set cs' \<subseteq> C"
        by blast
      from Pair Inr 1 2 have "out (snd (bind m f s)) = out s @ (ls @ ls')"
        and "calls (snd (bind m f s)) = calls s @ (cs @ cs')" and "set (cs @ cs') \<subseteq> C"
        by (simp_all add: bind_def)
      then show ?thesis by blast
    qed
  qed
qed

lemma appends_seq:
  "(\<And>m. m \<in> set ms \<Longrightarrow> appends C m) \<Longrightarrow> appends C (seq ms)"
proof (induction ms)
  case Nil
  show ?case by (simp add: appends_def)
next
  case (Cons m ms)
  have "seq (m # ms) = bind m (\<lambda>_. seq ms)"
    by (rule ext) (simp add: bind_def split: prod.splits sum.splits)
  with Cons show ?case by (simp add: appends_bind)
qed

lemma appends_try:
  assumes b: "appends C body" and h: "\<And>cmd rc. appends C (handler cmd rc)"
  shows "appends C (try_except_CalledProcessError body handler)"
proof (rule appendsI)
  fix s
  let ?t = "try_except_CalledProcessError body handler"
  from appendsD [OF b, of s] obtain ls cs where
    1: "out (snd (body s)) = out s @ ls" "calls (snd (body s)) = calls s @ cs" "set cs \<subseteq> C"
    by blast
  have same: "?t s = body s \<Longrightarrow> \<exists>ls cs. out (snd (?t s)) = out s @ ls
      \<and> calls (snd (?t s)) = calls s @ cs \<and> set cs \<subseteq> C"
    using 1 by auto
  show "\<exists>ls cs. out (snd (?t s)) = out s @ ls \<and> calls (snd (?t s)) = calls s @ cs \<and> set cs \<subseteq> C"
  proof (cases "body s")
    case (Pair r s')
    show ?thesis
    proof (cases r)
      case (Inr u)
      with Pair show ?thesis
        by (intro same) (simp add: try_except_CalledProcessError_def)
    next
      case (Inl e)
      show ?thesis
      proof (cases e)
        case (CalledProcessError cmd rc)
        from appendsD [OF h, of cmd rc s'] obtain ls' cs' where
          2: "out (snd (handler cmd rc s')) = out s' @ ls'"
             "calls (snd (handler cmd rc s')) = calls s' @ cs'" "set cs' \<subseteq> C"
          by blast
        have t: "?t s = handler cmd rc s'"
          using Pair Inl CalledProcessError by (simp add: try_except_CalledProcessError_def)
        from 1 2 Pair have "out (snd (?t s)) = out s @ (ls @ ls')"
          and "calls (snd (?t s)) = calls s @ (cs @ cs')" and "set (cs @ cs') \<subseteq> C"
          by (simp_all add: t)
        then show ?thesis by blast
      qed (use Pair Inl in \<open>(intro same, simp add: try_except_CalledProcessError_def)+\<close>)
    qed
  qed
qed

lemma appends_if: "appends C a \<Longrightarrow> appends C b \<Longrightarrow> appends C (if c then a else b)"
  by simp

lemma appends_seq_Nil: "appends C (seq [])"
  by (simp add: appends_def)

lemma appends_seq_Cons: "appends C m \<Longrightarrow> appends C (seq ms) \<Longrightarrow> appends C (seq (m # ms))"
proof -
  assume a: "appends C m" "appends C (seq ms)"
  have "seq (m # ms) = bind m (\<lambda>_. seq ms)"
    by (rule ext) (simp add: bind_def split: prod.splits sum.splits)
  with a show ?thesis by (simp add: appends_bind)
qed

lemma appends_seq_prints: "appends C (seq (map print_line ls))"
  by (simp add: appends_def seq_prints)

lemma appends_subprocess_run: "prog # args \<in> C \<Longrightarrow> appends C (subprocess_run w prog args)"
  by (simp add: appends_def subprocess_run_def Let_def)

lemma appends_run: "prog # args \<in> C \<Longrightarrow> appends C (run w prog args)"
  by (simp add: run_def appends_bind appends_subprocess_run appends_ret)

lemma mkdirs_frame: "out (snd (mkdirs w qs s)) = out s \<and> calls (snd (mkdirs w qs s)) = calls s"
  by (induction w qs s rule: mkdirs.induct)
     (auto split: option.splits node.splits list.splits)

lemma appends_makedirs: "appends C (makedirs w p)"
  by (simp add: appends_def makedirs_def mkdirs_frame)

lemma appends_write_file: "appends C (write_file w p content)"
  by (simp add: appends_def write_file_def split: option.splits)

lemma appends_mono: "appends C m \<Longrightarrow> C \<subseteq> D \<Longrightarrow> appends D m"
  unfolding appends_def by (meson order_trans)

lemmas appends_intros =
  appends_ret appends_raise appends_print_line appends_sys_exit appends_bind appends_if
  appends_seq_Nil appends_seq_Cons appends_seq_prints appends_try appends_run
  appends_subprocess_run appends_makedirs appends_write_file

lemma appends_setup_virtual_environment:
  "appends {[''python3'', ''-m'', ''venv'', ''.venv''],
            [''.venv/Scripts/pip'', ''install'', ''--upgrade'', ''pip''],
            [''.venv/Scripts/pip'', ''install'', ''-r'', ''requirements-dev.txt''],
            [''.venv/bin/pip'', ''install'', ''--upgrade'', ''pip''],
            [''.venv/bin/pip'', ''install'', ''-r'', ''requirements-dev.txt'']}
     (setup_virtual_environment w project_name)"
  unfolding setup_virtual_environment_def Let_def
  by (intro appends_intros) simp_all

lemma appends_create_project_structure: "appends {} (create_project_structure w project_name)"
  unfolding create_project_structure_def Let_def
  by (intro appends_intros)

lemma appends_get_github_username:
  "appends {[''gh'', ''api'', ''user'', ''--jq'', ''.login'']} (get_github_username w)"
proof (rule appendsI)
  fix s
  let ?C = "{[''gh'', ''api'', ''user'', ''--jq'', ''.login'']}"
  have "appends ?C (subprocess_run w ''gh'' [''api'', ''user'', ''--jq'', ''.login''])"
    by (simp add: appends_subprocess_run)
  from appendsD [OF this, of s] obtain ls cs where
    1: "out (snd (subprocess_run w ''gh'' [''api'', ''user'', ''--jq'', ''.login''] s)) = out s @ ls"
       "calls (snd (subprocess_run w ''gh'' [''api'', ''user'', ''--jq'', ''.login''] s)) = calls s @ cs"
       "set cs \<subseteq> ?C"
    by blast
  have "snd (get_github_username w s)
          = snd (subprocess_run w ''gh'' [''api'', ''user'', ''--jq'', ''.login''] s)"
    by (simp add: get_github_username_def Let_def split: prod.splits sum.splits exn.splits)
  with 1 show "\<exists>ls cs. out (snd (get_github_username w s)) = out s @ ls
      \<and> calls (snd (get_github_username w s)) = calls s @ cs \<and> set cs \<subseteq> ?C"
    by auto
qed

lemma appends_setup_git_no_github:
  "appends {[''git'', ''init''], [''git'', ''add'', ''.''],
            [''git'', ''commit'', ''-m'', ''Initial commit with project structure'']}
     (setup_git w project_name False visibility)"
  unfolding setup_git_def setup_git_steps_def if_False
  by (intro appends_intros) simp_all

subsection \<open>Claim C4: the derived project name\<close>

text \<open>
  Claim C4, as amended. For every prefix and every directory name of the model,
  \<^verbatim>\<open>get_project_name\<close> returns the prefix, a hyphen, and the directory name in lower
  case with every maximal run of whitespace or underscore characters replaced by one
  hyphen (the specification's wording, \<open>spec_derive\<close>). The result matches
  \<^verbatim>\<open>^<escaped prefix>-[a-z0-9-]+$\<close> whenever the directory name is not empty and
  consists of ASCII letters, digits, hyphens, whitespace and underscores; any other
  character is copied, in lower case and unescaped, and for a name with such a character
  the theorem promises no match. The hyphens that replace a run are hyphens, and no two
  of them are next to each other.
\<close>

theorem get_project_name_collapses_runs:
  "get_project_name w prefix = spec_derive prefix (current_folder w)
   \<and> (current_folder w \<noteq> [] \<and> list_all plain_name_char (current_folder w)
        \<longrightarrow> matches_name_pattern prefix (get_project_name w prefix))
   \<and> map fst (re_sub_seps_marked (lower (current_folder w)))
        = drop (length prefix + 1) (get_project_name w prefix)
   \<and> (\<forall>c. (c, True) \<in> set (re_sub_seps_marked (lower (current_folder w))) \<longrightarrow> c = CHR ''-'')
   \<and> (\<forall>i. Suc i < length (re_sub_seps_marked (lower (current_folder w)))
          \<longrightarrow> snd (re_sub_seps_marked (lower (current_folder w)) ! i)
          \<longrightarrow> \<not> snd (re_sub_seps_marked (lower (current_folder w)) ! Suc i))"
proof (intro conjI allI impI)
  show "get_project_name w prefix = spec_derive prefix (current_folder w)"
    by (simp add: get_project_name_def spec_derive_def re_sub_seps_collapse_runs)
  show "map fst (re_sub_seps_marked (lower (current_folder w)))
        = drop (length prefix + 1) (get_project_name w prefix)"
    by (simp add: marked_fst get_project_name_def)
next
  assume "current_folder w \<noteq> [] \<and> list_all plain_name_char (current_folder w)"
  then show "matches_name_pattern prefix (get_project_name w prefix)"
    by (simp add: matches_get_project_name)
next
  fix c assume "(c, True) \<in> set (re_sub_seps_marked (lower (current_folder w)))"
  then show "c = CHR ''-''" by (rule marked_hyphen)
next
  fix i
  assume "Suc i < length (re_sub_seps_marked (lower (current_folder w)))"
    and "snd (re_sub_seps_marked (lower (current_folder w)) ! i)"
  then show "\<not> snd (re_sub_seps_marked (lower (current_folder w)) ! Suc i)"
    by (rule marked_not_adjacent)
qed

text \<open>
  The theorem at the directory \<^verbatim>\<open>My _Project\<close> and the prefix \<^verbatim>\<open>acme\<close>: the name is
  \<^verbatim>\<open>acme-my-project\<close>, it matches the pattern, and the hyphen at index 2 of the
  sanitised name is not followed by another one.
\<close>

theorem get_project_name_collapses_runs_witness:
  "get_project_name (world_all_ok ''My _Project'') ''acme'' = ''acme-my-project''
   \<and> spec_derive ''acme'' ''My _Project'' = ''acme-my-project''
   \<and> matches_name_pattern ''acme'' ''acme-my-project''
   \<and> (CHR ''-'', True) \<in> set (re_sub_seps_marked (lower ''My _Project''))
   \<and> snd (re_sub_seps_marked (lower ''My _Project'') ! 2)
   \<and> \<not> snd (re_sub_seps_marked (lower ''My _Project'') ! Suc 2)"
proof -
  let ?w = "world_all_ok ''My _Project''"
  have f: "current_folder ?w = ''My _Project''"
    by (simp add: world_all_ok_def posix_world_def)
  have n: "get_project_name ?w ''acme'' = ''acme-my-project''"
    by (simp add: get_project_name_def f lower_def py_lower_char_def py_isupper_def is_sep_def
          py_isspace_def)
  have p: "current_folder ?w \<noteq> [] \<and> list_all plain_name_char (current_folder ?w)"
    by (simp add: f plain_name_char_def is_sep_def py_isspace_def)
  have m: "re_sub_seps_marked (lower ''My _Project'')
             = [(CHR ''m'', False), (CHR ''y'', False), (CHR ''-'', True), (CHR ''p'', False),
                (CHR ''r'', False), (CHR ''o'', False), (CHR ''j'', False), (CHR ''e'', False),
                (CHR ''c'', False), (CHR ''t'', False)]"
    by (simp add: lower_def py_lower_char_def py_isupper_def is_sep_def py_isspace_def)
  note inst = get_project_name_collapses_runs [of ?w "''acme''", unfolded f]
  from inst have "get_project_name ?w ''acme'' = spec_derive ''acme'' ''My _Project''"
    by (rule conjunct1)
  with n have 1: "spec_derive ''acme'' ''My _Project'' = ''acme-my-project''"
    by simp
  from inst p [unfolded f] have "matches_name_pattern ''acme'' (get_project_name ?w ''acme'')"
    by blast
  with n have 2: "matches_name_pattern ''acme'' ''acme-my-project''"
    by simp
  have 3: "snd (re_sub_seps_marked (lower ''My _Project'') ! 2)"
    by (simp add: m)
  have len: "Suc 2 < length (re_sub_seps_marked (lower ''My _Project''))"
    by (simp add: m)
  from inst len 3 have 4: "\<not> snd (re_sub_seps_marked (lower ''My _Project'') ! Suc 2)"
    by blast
  have 5: "(CHR ''-'', True) \<in> set (re_sub_seps_marked (lower ''My _Project''))"
    by (simp add: m)
  from n 1 2 3 4 5 show ?thesis by blast
qed

text \<open>
  The claim as first stated promised the pattern for every directory name. In a
  directory named \<^verbatim>\<open>my.project\<close> the name is \<^verbatim>\<open>acme-my.project\<close>, and the dot is not in
  the class.
\<close>

theorem get_project_name_counterexample:
  "get_project_name (world_all_ok ''my.project'') ''acme'' = ''acme-my.project''
   \<and> \<not> matches_name_pattern ''acme'' (get_project_name (world_all_ok ''my.project'') ''acme'')"
  by (simp add: get_project_name_def world_all_ok_def posix_world_def lower_def py_lower_char_def
        py_isupper_def is_sep_def py_isspace_def matches_name_pattern_def in_name_class_def)

subsection \<open>What a step has printed and run when it returns\<close>

lemma yieldsD: "yields ls cs m \<Longrightarrow> m s = (Inr (), s') \<Longrightarrow> out s' = out s @ ls \<and> calls s' = calls s @ cs"
  by (simp add: yields_def)

lemma yields_print_line: "yields [x] [] (print_line x)"
  by (auto simp: yields_def print_line_def)

lemma yields_run: "yields [] [prog # args] (run w prog args)"
  by (auto simp: yields_def run_def bind_def ret_def subprocess_run_def Let_def split: if_splits)

lemma yields_makedirs: "yields [] [] (makedirs w p)"
  using mkdirs_frame [of w "parents p @ [p]"]
  by (auto simp: yields_def makedirs_def) (metis snd_conv)+

lemma yields_write_file: "yields [] [] (write_file w p content)"
  by (auto simp: yields_def write_file_def split: option.splits if_splits)

lemma yields_seq_Nil: "yields [] [] (seq [])"
  by (simp add: yields_def)

lemma yields_seq_Cons:
  assumes "yields ls cs m" and "yields ls' cs' (seq ms)"
  shows "yields (ls @ ls') (cs @ cs') (seq (m # ms))"
  unfolding yields_def
proof (intro allI impI)
  fix s s'
  assume r: "seq (m # ms) s = (Inr (), s')"
  then obtain s1 where 1: "m s = (Inr (), s1)" and 2: "seq ms s1 = (Inr (), s')"
    by (auto split: prod.splits sum.splits)
  from yieldsD [OF assms(1) 1] yieldsD [OF assms(2) 2]
  show "out s' = out s @ ls @ ls' \<and> calls s' = calls s @ cs @ cs'"
    by simp
qed

lemma yields_eq: "yields ls cs m \<Longrightarrow> ls = ls' \<Longrightarrow> cs = cs' \<Longrightarrow> yields ls' cs' m"
  by simp

lemmas yields_intros =
  yields_seq_Cons yields_seq_Nil yields_print_line yields_run yields_makedirs yields_write_file

lemma yields_setup_virtual_environment:
  "yields [''Creating virtual environment for '' @ project_name @ ''...'',
           ''Virtual environment created and dependencies installed.'']
     (venv_commands w) (setup_virtual_environment w project_name)"
  unfolding setup_virtual_environment_def venv_commands_def Let_def
  by (rule yields_eq, (rule yields_intros)+) simp_all

lemma yields_create_project_structure:
  "yields [''Creating project structure for '' @ project_name @ ''...'',
           ''Project structure created.'']
     [] (create_project_structure w project_name)"
  unfolding create_project_structure_def Let_def
  by (rule yields_eq, (rule yields_intros)+) simp_all

lemma get_github_username_installed:
  "installed w ''gh'' \<Longrightarrow>
     get_github_username w s
       = (Inr (resolved_username w),
          s\<lparr>calls := calls s @ [[''gh'', ''api'', ''user'', ''--jq'', ''.login'']]\<rparr>)"
  by (simp add: get_github_username_def resolved_username_def subprocess_run_def Let_def)

lemma get_github_username_absent:
  "\<not> installed w ''gh'' \<Longrightarrow>
     get_github_username w s
       = (Inl (FileNotFoundError ''gh''),
          s\<lparr>calls := calls s @ [[''gh'', ''api'', ''user'', ''--jq'', ''.login'']]\<rparr>)"
  by (simp add: get_github_username_def subprocess_run_def Let_def)

subsection \<open>\<^verbatim>\<open>setup_git\<close> when \<^verbatim>\<open>gh repo create\<close> or \<^verbatim>\<open>git push\<close> fails\<close>

lemmas step_defs =
  ret_def raise_def bind_def try_except_CalledProcessError_def print_line_def sys_exit_def
  subprocess_run_def run_def write_file_def parents_def seq_prints

lemma setup_git_create_fails:
  assumes gh: "installed w ''gh''"
    and vis: "visibility = ''public'' \<or> visibility = ''private''"
    and rc: "returncode w [''gh'', ''repo'', ''create'', project_name, ''--'' @ visibility,
                           ''--source=.'', ''--remote=origin''] \<noteq> 0"
    and fresh: "[''gh'', ''repo'', ''create'', project_name, ''--'' @ visibility,
                 ''--source=.'', ''--remote=origin''] \<notin> set (calls s)"
    and reached: "[''gh'', ''repo'', ''create'', project_name, ''--'' @ visibility,
          ''--source=.'', ''--remote=origin'']
           \<in> set (calls (snd (setup_git w project_name True visibility s)))"
  shows "fst (setup_git w project_name True visibility s) = Inr ()
     \<and> out (snd (setup_git w project_name True visibility s))
         = out s @ [''Setting up Git repository...'',
                    ''Creating GitHub repository for '' @ project_name @ ''...'']
           @ create_failed_lines
               (exn_text w [''gh'', ''repo'', ''create'', project_name, ''--'' @ visibility,
                            ''--source=.'', ''--remote=origin'']
                  (returncode w [''gh'', ''repo'', ''create'', project_name, ''--'' @ visibility,
                                 ''--source=.'', ''--remote=origin'']))
               (resolved_username w) project_name
           @ [''\<newline>Git repository initialized with initial commit.'']"
  using assms
  by (auto simp: setup_git_def setup_git_steps_def get_github_username_installed step_defs Let_def
        split: if_splits)

lemma setup_git_push_fails:
  assumes vis: "visibility = ''public'' \<or> visibility = ''private''"
    and rc: "returncode w [''git'', ''push'', ''-u'', ''origin'', ''main''] \<noteq> 0"
    and fresh: "[''git'', ''push'', ''-u'', ''origin'', ''main''] \<notin> set (calls s)"
    and reached: "[''git'', ''push'', ''-u'', ''origin'', ''main'']
           \<in> set (calls (snd (setup_git w project_name True visibility s)))"
  shows "fst (setup_git w project_name True visibility s) = Inr ()
     \<and> out (snd (setup_git w project_name True visibility s))
         = out s @ [''Setting up Git repository...'',
                    ''Creating GitHub repository for '' @ project_name @ ''...'',
                    ''GitHub repository created: '' @ project_name]
           @ create_failed_lines
               (exn_text w [''git'', ''push'', ''-u'', ''origin'', ''main'']
                  (returncode w [''git'', ''push'', ''-u'', ''origin'', ''main'']))
               (resolved_username w) project_name
           @ [''\<newline>Git repository initialized with initial commit.'']
     \<and> [''gh'', ''repo'', ''create'', project_name, ''--'' @ visibility,
          ''--source=.'', ''--remote=origin'']
           \<in> set (calls (snd (setup_git w project_name True visibility s)))
     \<and> returncode w [''gh'', ''repo'', ''create'', project_name, ''--'' @ visibility,
                      ''--source=.'', ''--remote=origin''] = 0"
proof (cases "installed w ''gh''")
  case True
  with assms show ?thesis
    by (auto simp: setup_git_def setup_git_steps_def get_github_username_installed step_defs Let_def
          split: if_splits)
next
  case False
  with assms show ?thesis
    by (auto simp: setup_git_def setup_git_steps_def get_github_username_absent step_defs Let_def)
qed

subsection \<open>The three steps of \<^verbatim>\<open>main\<close>\<close>

lemma appends_venv_commands:
  "appends (set (venv_commands w)) (setup_virtual_environment w project_name)"
  unfolding setup_virtual_environment_def Let_def
  by (intro appends_intros) (simp_all add: venv_commands_def Let_def)

lemma run_setup_cases:
  "(\<exists>e s1 cs. run_setup w project_name use_github visibility s = (Inl e, s1)
       \<and> calls s1 = calls s @ cs \<and> set cs \<subseteq> set (venv_commands w))
   \<or> (\<exists>s2. out s2 = out s @ opening_lines project_name
         \<and> calls s2 = calls s @ venv_commands w
         \<and> run_setup w project_name use_github visibility s
             = (case setup_git w project_name use_github visibility s2 of
                  (Inl e, s3) \<Rightarrow> (Inl e, s3)
                | (Inr _, s3) \<Rightarrow> (Inr (), s3\<lparr>out := out s3 @ closing_lines w project_name\<rparr>)))"
proof -
  let ?s0 = "s\<lparr>out := out s @ [''Setting up Python project: '' @ project_name]\<rparr>"
  let ?venv = "setup_virtual_environment w project_name"
  let ?layout = "create_project_structure w project_name"
  obtain r1 s1 where v: "?venv ?s0 = (r1, s1)" by (cases "?venv ?s0")
  from appendsD [OF appends_venv_commands, of w project_name ?s0] v
  obtain cs where c1: "calls s1 = calls s @ cs" "set cs \<subseteq> set (venv_commands w)"
    by auto
  show ?thesis
  proof (cases r1)
    case (Inl e)
    with v have "run_setup w project_name use_github visibility s = (Inl e, s1)"
      by (simp add: run_setup_def print_line_def)
    with c1 show ?thesis by blast
  next
    case (Inr u)
    with v have v': "?venv ?s0 = (Inr (), s1)" by simp
    from yieldsD [OF yields_setup_virtual_environment v']
    have 1: "out s1 = out s @ [''Setting up Python project: '' @ project_name,
                ''Creating virtual environment for '' @ project_name @ ''...'',
                ''Virtual environment created and dependencies installed.'']"
      and 2: "calls s1 = calls s @ venv_commands w"
      by simp_all
    obtain r2 s2 where l: "?layout s1 = (r2, s2)" by (cases "?layout s1")
    from appendsD [OF appends_create_project_structure, of w project_name s1] l
    have c2: "calls s2 = calls s1" by simp
    show ?thesis
    proof (cases r2)
      case (Inl e)
      with v' l have "run_setup w project_name use_github visibility s = (Inl e, s2)"
        by (simp add: run_setup_def print_line_def)
      with c2 2 show ?thesis by auto
    next
      case (Inr u2)
      with l have l': "?layout s1 = (Inr (), s2)" by simp
      from yieldsD [OF yields_create_project_structure l'] 1 2
      have 3: "out s2 = out s @ opening_lines project_name"
        and 4: "calls s2 = calls s @ venv_commands w"
        by (simp_all add: opening_lines_def)
      have "run_setup w project_name use_github visibility s
             = (case setup_git w project_name use_github visibility s2 of
                  (Inl e, s3) \<Rightarrow> (Inl e, s3)
                | (Inr _, s3) \<Rightarrow> (Inr (), s3\<lparr>out := out s3 @ closing_lines w project_name\<rparr>))"
        using v' l'
        by (simp add: run_setup_def print_line_def closing_lines_def
              split: prod.splits sum.splits)
      with 3 4 show ?thesis by blast
    qed
  qed
qed

lemma main_run_setup:
  "2 \<le> length argv \<Longrightarrow>
     main w argv
       = run_setup w (get_project_name w (argv ! 1)) (''--no-github'' \<notin> set argv)
           (if ''--public'' \<in> set argv then ''public'' else ''private'')"
  by (simp add: main_def Let_def)

lemma exit_code_Inr: "fst r = Inr () \<Longrightarrow> exit_code r = 0"
  by (simp add: exit_code_def)

lemma printed_since_append: "out (snd r) = out s @ ls \<Longrightarrow> printed_since s r = ls"
  by (simp add: printed_since_def)

lemma not_venv_command: "hd c \<notin> {''python3'', ''.venv/Scripts/pip'', ''.venv/bin/pip''} \<Longrightarrow> c \<notin> set (venv_commands w)"
  by (auto simp: venv_commands_def Let_def)

subsection \<open>Runs in concrete surroundings\<close>

lemmas run_defs =
  main_def run_setup_def setup_virtual_environment_def create_project_structure_def
  setup_git_def setup_git_steps_def get_github_username_def get_project_name_def
  ret_def raise_def bind_def try_except_CalledProcessError_def print_line_def sys_exit_def
  subprocess_run_def run_def makedirs_def write_file_def parents_def
  lower_def py_lower_char_def py_isupper_def is_sep_def py_isspace_def replace_hyphens_def
  strip_def create_failed_lines_def gh_not_found_lines_def skipping_lines_def manual_steps_def
  opening_lines_def closing_lines_def demo_argv_def
  posix_world_def empty_state_def Let_def

lemma run_create_fails:
  "case main world_create_fails demo_argv empty_state of
     (res, st) \<Rightarrow>
       res = Inr ()
       \<and> out st =
           opening_lines ''acme-my-project''
           @ [''Setting up Git repository...'',
              ''Creating GitHub repository for acme-my-project...'']
           @ create_failed_lines ''Command returned non-zero exit status.'' ''octocat''
               ''acme-my-project''
           @ [''\<newline>Git repository initialized with initial commit.'']
           @ closing_lines world_create_fails ''acme-my-project''
       \<and> calls st =
           [[''python3'', ''-m'', ''venv'', ''.venv''],
            [''.venv/bin/pip'', ''install'', ''--upgrade'', ''pip''],
            [''.venv/bin/pip'', ''install'', ''-r'', ''requirements-dev.txt''],
            [''gh'', ''api'', ''user'', ''--jq'', ''.login''],
            [''git'', ''init''], [''git'', ''add'', ''.''],
            [''git'', ''commit'', ''-m'', ''Initial commit with project structure''],
            [''gh'', ''--version''],
            [''gh'', ''repo'', ''create'', ''acme-my-project'', ''--private'', ''--source=.'',
             ''--remote=origin'']]"
  by (simp add: run_defs world_create_fails_def)

lemma run_push_fails:
  "case main world_push_fails demo_argv empty_state of
     (res, st) \<Rightarrow>
       res = Inr ()
       \<and> out st =
           opening_lines ''acme-my-project''
           @ [''Setting up Git repository...'',
              ''Creating GitHub repository for acme-my-project...'',
              ''GitHub repository created: acme-my-project'']
           @ create_failed_lines ''Command returned non-zero exit status.'' ''octocat''
               ''acme-my-project''
           @ [''\<newline>Git repository initialized with initial commit.'']
           @ closing_lines world_push_fails ''acme-my-project''
       \<and> calls st =
           [[''python3'', ''-m'', ''venv'', ''.venv''],
            [''.venv/bin/pip'', ''install'', ''--upgrade'', ''pip''],
            [''.venv/bin/pip'', ''install'', ''-r'', ''requirements-dev.txt''],
            [''gh'', ''api'', ''user'', ''--jq'', ''.login''],
            [''git'', ''init''], [''git'', ''add'', ''.''],
            [''git'', ''commit'', ''-m'', ''Initial commit with project structure''],
            [''gh'', ''--version''],
            [''gh'', ''repo'', ''create'', ''acme-my-project'', ''--private'', ''--source=.'',
             ''--remote=origin''],
            [''git'', ''push'', ''-u'', ''origin'', ''main'']]"
  by (simp add: run_defs world_push_fails_def)

lemma demo_project_name:
  "get_project_name (posix_world ''my_project'' inst rc) ''acme'' = ''acme-my-project''"
  by (simp add: get_project_name_def posix_world_def lower_def py_lower_char_def
        py_isupper_def is_sep_def py_isspace_def)

subsection \<open>Claim C3: a failed repository creation does not end the run\<close>

text \<open>
  Claim C3. In every run that uses GitHub, with \<^verbatim>\<open>gh\<close> present, in which the command
  \<^verbatim>\<open>gh repo create\<close> is run and returns non-zero, the run is not aborted: \<^verbatim>\<open>setup_git\<close>
  prints the manual fallback instructions and returns, and \<^verbatim>\<open>main\<close> goes on to the final
  success message. The lines printed by the whole run are the ones listed, and the exit
  code is 0.
\<close>

theorem create_failure_is_not_fatal:
  assumes len: "2 \<le> length argv" and gh_wanted: "''--no-github'' \<notin> set argv"
    and gh: "installed w ''gh''"
    and pn: "project_name = get_project_name w (argv ! 1)"
    and create: "create = [''gh'', ''repo'', ''create'', project_name,
                   ''--'' @ (if ''--public'' \<in> set argv then ''public'' else ''private''),
                   ''--source=.'', ''--remote=origin'']"
    and rc: "returncode w create \<noteq> 0"
    and fresh: "create \<notin> set (calls s)"
    and reached: "create \<in> set (calls (snd (main w argv s)))"
  shows "fst (main w argv s) = Inr () \<and> exit_code (main w argv s) = 0
     \<and> printed_since s (main w argv s)
         = opening_lines project_name
           @ [''Setting up Git repository...'',
              ''Creating GitHub repository for '' @ project_name @ ''...'']
           @ create_failed_lines (exn_text w create (returncode w create))
               (resolved_username w) project_name
           @ [''\<newline>Git repository initialized with initial commit.'']
           @ closing_lines w project_name"
proof -
  let ?vis = "if ''--public'' \<in> set argv then ''public'' else ''private''"
  have m: "main w argv = run_setup w project_name True ?vis"
    using len gh_wanted pn by (simp add: main_run_setup)
  have nv: "create \<notin> set (venv_commands w)"
    by (rule not_venv_command) (simp add: create)
  from run_setup_cases [of w project_name True ?vis s]
  show ?thesis
  proof (elim disjE exE conjE)
    fix e s1 cs
    assume "run_setup w project_name True ?vis s = (Inl e, s1)"
      and "calls s1 = calls s @ cs" and "set cs \<subseteq> set (venv_commands w)"
    with reached fresh nv m have False by auto
    then show ?thesis ..
  next
    fix s2
    let ?g = "setup_git w project_name True ?vis s2"
    assume o2: "out s2 = out s @ opening_lines project_name"
      and c2: "calls s2 = calls s @ venv_commands w"
      and r: "run_setup w project_name True ?vis s
             = (case ?g of (Inl e, s3) \<Rightarrow> (Inl e, s3)
                | (Inr _, s3) \<Rightarrow> (Inr (), s3\<lparr>out := out s3 @ closing_lines w project_name\<rparr>))"
    from reached m r have "create \<in> set (calls (snd ?g))"
      by (auto split: prod.splits sum.splits)
    moreover from fresh nv c2 have "create \<notin> set (calls s2)" by simp
    ultimately have g: "fst ?g = Inr ()"
      "out (snd ?g) = out s2 @ [''Setting up Git repository...'',
                    ''Creating GitHub repository for '' @ project_name @ ''...'']
           @ create_failed_lines (exn_text w create (returncode w create))
               (resolved_username w) project_name
           @ [''\<newline>Git repository initialized with initial commit.'']"
      using setup_git_create_fails [of w ?vis project_name s2] gh rc
      unfolding create by (simp_all split: if_splits)
    from g(1) obtain s3 where g3: "?g = (Inr (), s3)" by (cases ?g) auto
    with r m have res: "main w argv s = (Inr (), s3\<lparr>out := out s3 @ closing_lines w project_name\<rparr>)"
      by simp
    from g(2) g3 o2 have "out (snd (main w argv s)) = out s @ (opening_lines project_name
           @ [''Setting up Git repository...'',
              ''Creating GitHub repository for '' @ project_name @ ''...'']
           @ create_failed_lines (exn_text w create (returncode w create))
               (resolved_username w) project_name
           @ [''\<newline>Git repository initialized with initial commit.'']
           @ closing_lines w project_name)"
      by (simp add: res)
    then have "printed_since s (main w argv s) = opening_lines project_name
           @ [''Setting up Git repository...'',
              ''Creating GitHub repository for '' @ project_name @ ''...'']
           @ create_failed_lines (exn_text w create (returncode w create))
               (resolved_username w) project_name
           @ [''\<newline>Git repository initialized with initial commit.'']
           @ closing_lines w project_name"
      by (rule printed_since_append)
    with res show ?thesis by (simp add: exit_code_def)
  qed
qed

text \<open>
  The theorem in surroundings where only \<^verbatim>\<open>gh repo create\<close> fails: the run returns, with
  the last manual instruction among the lines printed and the activation reminder last.
\<close>

theorem create_failure_is_not_fatal_witness:
  "fst (main world_create_fails demo_argv empty_state) = Inr ()
   \<and> exit_code (main world_create_fails demo_argv empty_state) = 0
   \<and> ''   git push -u origin main''
        \<in> set (printed_since empty_state (main world_create_fails demo_argv empty_state))
   \<and> last (printed_since empty_state (main world_create_fails demo_argv empty_state))
        = ''source .venv/bin/activate''"
proof -
  let ?create = "[''gh'', ''repo'', ''create'', ''acme-my-project'', ''--private'', ''--source=.'',
                  ''--remote=origin'']"
  have len: "2 \<le> length demo_argv" and flag: "''--no-github'' \<notin> set demo_argv"
    by (simp_all add: demo_argv_def)
  have gh: "installed world_create_fails ''gh''"
    by (simp add: world_create_fails_def posix_world_def)
  have pn: "''acme-my-project'' = get_project_name world_create_fails (demo_argv ! 1)"
    by (simp add: world_create_fails_def demo_argv_def demo_project_name)
  have create: "?create = [''gh'', ''repo'', ''create'', ''acme-my-project'',
                   ''--'' @ (if ''--public'' \<in> set demo_argv then ''public'' else ''private''),
                   ''--source=.'', ''--remote=origin'']"
    by (simp add: demo_argv_def)
  have rc: "returncode world_create_fails ?create \<noteq> 0"
    by (simp add: world_create_fails_def posix_world_def)
  have fresh: "?create \<notin> set (calls empty_state)"
    by (simp add: empty_state_def)
  have reached: "?create \<in> set (calls (snd (main world_create_fails demo_argv empty_state)))"
    using run_create_fails by (simp split: prod.splits)
  from create_failure_is_not_fatal [OF len flag gh pn create rc fresh reached]
  show ?thesis
    by (simp add: create_failed_lines_def manual_steps_def closing_lines_def
          world_create_fails_def posix_world_def)
qed

subsection \<open>Claim C1: a failed push after a successful repository creation\<close>

text \<open>
  Claim C1, as amended. In every run in which \<^verbatim>\<open>git push\<close> is run and returns non-zero,
  the repository creation command has been run and has succeeded, and the failure of
  the push is caught by the handler that also catches a failed creation: \<^verbatim>\<open>setup_git\<close>
  prints \<^verbatim>\<open>Error creating GitHub repository\<close> with the manual fallback instructions and
  returns, \<^verbatim>\<open>main\<close> prints the final success message, and the exit code is 0. The push
  stands inside the \<^verbatim>\<open>try\<close> block of lines 221 to 239.
\<close>

theorem push_failure_is_caught:
  assumes len: "2 \<le> length argv" and gh_wanted: "''--no-github'' \<notin> set argv"
    and pn: "project_name = get_project_name w (argv ! 1)"
    and create: "create = [''gh'', ''repo'', ''create'', project_name,
                   ''--'' @ (if ''--public'' \<in> set argv then ''public'' else ''private''),
                   ''--source=.'', ''--remote=origin'']"
    and push: "push = [''git'', ''push'', ''-u'', ''origin'', ''main'']"
    and rc: "returncode w push \<noteq> 0"
    and fresh: "push \<notin> set (calls s)"
    and reached: "push \<in> set (calls (snd (main w argv s)))"
  shows "create \<in> set (calls (snd (main w argv s))) \<and> returncode w create = 0
     \<and> fst (main w argv s) = Inr () \<and> exit_code (main w argv s) = 0
     \<and> printed_since s (main w argv s)
         = opening_lines project_name
           @ [''Setting up Git repository...'',
              ''Creating GitHub repository for '' @ project_name @ ''...'',
              ''GitHub repository created: '' @ project_name]
           @ create_failed_lines (exn_text w push (returncode w push))
               (resolved_username w) project_name
           @ [''\<newline>Git repository initialized with initial commit.'']
           @ closing_lines w project_name"
proof -
  let ?vis = "if ''--public'' \<in> set argv then ''public'' else ''private''"
  have m: "main w argv = run_setup w project_name True ?vis"
    using len gh_wanted pn by (simp add: main_run_setup)
  have nv: "push \<notin> set (venv_commands w)"
    by (rule not_venv_command) (simp add: push)
  from run_setup_cases [of w project_name True ?vis s]
  show ?thesis
  proof (elim disjE exE conjE)
    fix e s1 cs
    assume "run_setup w project_name True ?vis s = (Inl e, s1)"
      and "calls s1 = calls s @ cs" and "set cs \<subseteq> set (venv_commands w)"
    with reached fresh nv m have False by auto
    then show ?thesis ..
  next
    fix s2
    let ?g = "setup_git w project_name True ?vis s2"
    assume o2: "out s2 = out s @ opening_lines project_name"
      and c2: "calls s2 = calls s @ venv_commands w"
      and r: "run_setup w project_name True ?vis s
             = (case ?g of (Inl e, s3) \<Rightarrow> (Inl e, s3)
                | (Inr _, s3) \<Rightarrow> (Inr (), s3\<lparr>out := out s3 @ closing_lines w project_name\<rparr>))"
    from reached m r have "push \<in> set (calls (snd ?g))"
      by (auto split: prod.splits sum.splits)
    moreover from fresh nv c2 have "push \<notin> set (calls s2)" by simp
    ultimately have g: "fst ?g = Inr ()"
      "out (snd ?g) = out s2 @ [''Setting up Git repository...'',
                    ''Creating GitHub repository for '' @ project_name @ ''...'',
                    ''GitHub repository created: '' @ project_name]
           @ create_failed_lines (exn_text w push (returncode w push))
               (resolved_username w) project_name
           @ [''\<newline>Git repository initialized with initial commit.'']"
      "create \<in> set (calls (snd ?g))" "returncode w create = 0"
      using setup_git_push_fails [of ?vis w s2 project_name] rc
      unfolding create push by (simp_all split: if_splits)
    from g(1) obtain s3 where g3: "?g = (Inr (), s3)" by (cases ?g) auto
    with r m have res: "main w argv s = (Inr (), s3\<lparr>out := out s3 @ closing_lines w project_name\<rparr>)"
      by simp
    from g(2) g3 o2 have "out (snd (main w argv s)) = out s @ (opening_lines project_name
           @ [''Setting up Git repository...'',
              ''Creating GitHub repository for '' @ project_name @ ''...'',
              ''GitHub repository created: '' @ project_name]
           @ create_failed_lines (exn_text w push (returncode w push))
               (resolved_username w) project_name
           @ [''\<newline>Git repository initialized with initial commit.'']
           @ closing_lines w project_name)"
      by (simp add: res)
    then have "printed_since s (main w argv s) = opening_lines project_name
           @ [''Setting up Git repository...'',
              ''Creating GitHub repository for '' @ project_name @ ''...'',
              ''GitHub repository created: '' @ project_name]
           @ create_failed_lines (exn_text w push (returncode w push))
               (resolved_username w) project_name
           @ [''\<newline>Git repository initialized with initial commit.'']
           @ closing_lines w project_name"
      by (rule printed_since_append)
    with res g(3,4) g3 show ?thesis by (simp add: exit_code_def)
  qed
qed

text \<open>The theorem in surroundings where only \<^verbatim>\<open>git push\<close> fails.\<close>

theorem push_failure_is_caught_witness:
  "[''gh'', ''repo'', ''create'', ''acme-my-project'', ''--private'', ''--source=.'',
    ''--remote=origin'']
     \<in> set (calls (snd (main world_push_fails demo_argv empty_state)))
   \<and> fst (main world_push_fails demo_argv empty_state) = Inr ()
   \<and> exit_code (main world_push_fails demo_argv empty_state) = 0
   \<and> ''You can manually create and connect to GitHub repository:''
        \<in> set (printed_since empty_state (main world_push_fails demo_argv empty_state))
   \<and> last (printed_since empty_state (main world_push_fails demo_argv empty_state))
        = ''source .venv/bin/activate''"
proof -
  let ?create = "[''gh'', ''repo'', ''create'', ''acme-my-project'', ''--private'', ''--source=.'',
                  ''--remote=origin'']"
  let ?push = "[''git'', ''push'', ''-u'', ''origin'', ''main'']"
  have len: "2 \<le> length demo_argv" and flag: "''--no-github'' \<notin> set demo_argv"
    by (simp_all add: demo_argv_def)
  have pn: "''acme-my-project'' = get_project_name world_push_fails (demo_argv ! 1)"
    by (simp add: world_push_fails_def demo_argv_def demo_project_name)
  have create: "?create = [''gh'', ''repo'', ''create'', ''acme-my-project'',
                   ''--'' @ (if ''--public'' \<in> set demo_argv then ''public'' else ''private''),
                   ''--source=.'', ''--remote=origin'']"
    by (simp add: demo_argv_def)
  have rc: "returncode world_push_fails ?push \<noteq> 0"
    by (simp add: world_push_fails_def posix_world_def)
  have fresh: "?push \<notin> set (calls empty_state)"
    by (simp add: empty_state_def)
  have reached: "?push \<in> set (calls (snd (main world_push_fails demo_argv empty_state)))"
    using run_push_fails by (simp split: prod.splits)
  from push_failure_is_caught [OF len flag pn create refl rc fresh reached]
  show ?thesis
    by (simp add: create_failed_lines_def manual_steps_def closing_lines_def
          world_push_fails_def posix_world_def)
qed

text \<open>
  The claim as first stated made the failed push fatal. In these surroundings the
  creation succeeds, the push fails, and the run returns with exit code 0 after printing
  the fallback instructions.
\<close>

theorem push_failure_counterexample:
  "returncode world_push_fails
     [''gh'', ''repo'', ''create'', ''acme-my-project'', ''--private'', ''--source=.'',
      ''--remote=origin''] = 0
   \<and> [''gh'', ''repo'', ''create'', ''acme-my-project'', ''--private'', ''--source=.'',
       ''--remote=origin'']
        \<in> set (calls (snd (main world_push_fails demo_argv empty_state)))
   \<and> [''git'', ''push'', ''-u'', ''origin'', ''main'']
        \<in> set (calls (snd (main world_push_fails demo_argv empty_state)))
   \<and> returncode world_push_fails [''git'', ''push'', ''-u'', ''origin'', ''main''] \<noteq> 0
   \<and> fst (main world_push_fails demo_argv empty_state) = Inr ()
   \<and> exit_code (main world_push_fails demo_argv empty_state) = 0
   \<and> set (create_failed_lines ''Command returned non-zero exit status.'' ''octocat''
             ''acme-my-project'')
        \<subseteq> set (out (snd (main world_push_fails demo_argv empty_state)))"
proof -
  obtain res st where r: "main world_push_fails demo_argv empty_state = (res, st)"
    by (cases "main world_push_fails demo_argv empty_state")
  with run_push_fails have "res = Inr ()"
    and "out st = opening_lines ''acme-my-project''
           @ [''Setting up Git repository...'',
              ''Creating GitHub repository for acme-my-project...'',
              ''GitHub repository created: acme-my-project'']
           @ create_failed_lines ''Command returned non-zero exit status.'' ''octocat''
               ''acme-my-project''
           @ [''\<newline>Git repository initialized with initial commit.'']
           @ closing_lines world_push_fails ''acme-my-project''"
    and "calls st =
           [[''python3'', ''-m'', ''venv'', ''.venv''],
            [''.venv/bin/pip'', ''install'', ''--upgrade'', ''pip''],
            [''.venv/bin/pip'', ''install'', ''-r'', ''requirements-dev.txt''],
            [''gh'', ''api'', ''user'', ''--jq'', ''.login''],
            [''git'', ''init''], [''git'', ''add'', ''.''],
            [''git'', ''commit'', ''-m'', ''Initial commit with project structure''],
            [''gh'', ''--version''],
            [''gh'', ''repo'', ''create'', ''acme-my-project'', ''--private'', ''--source=.'',
             ''--remote=origin''],
            [''git'', ''push'', ''-u'', ''origin'', ''main'']]"
    by simp_all
  moreover have "returncode world_push_fails
     [''gh'', ''repo'', ''create'', ''acme-my-project'', ''--private'', ''--source=.'',
      ''--remote=origin''] = 0"
    and "returncode world_push_fails [''git'', ''push'', ''-u'', ''origin'', ''main''] \<noteq> 0"
    by (simp_all add: world_push_fails_def posix_world_def)
  ultimately show ?thesis
    using r by (auto simp: exit_code_def)
qed

subsection \<open>Claim C2: the run without \<^verbatim>\<open>gh\<close>\<close>

lemma run_no_gh:
  "case main world_no_gh demo_argv empty_state of
     (res, st) \<Rightarrow>
       res = Inl (FileNotFoundError ''gh'')
       \<and> out st = opening_lines ''acme-my-project'' @ [''Setting up Git repository...'']
       \<and> calls st =
           [[''python3'', ''-m'', ''venv'', ''.venv''],
            [''.venv/bin/pip'', ''install'', ''--upgrade'', ''pip''],
            [''.venv/bin/pip'', ''install'', ''-r'', ''requirements-dev.txt''],
            [''gh'', ''api'', ''user'', ''--jq'', ''.login'']]
       \<and> fs st ''README.md'' = None"
  by (simp add: run_defs world_no_gh_def)

text \<open>
  Claim C2 asks that a missing \<^verbatim>\<open>gh\<close> is never fatal when GitHub is used. The code
  catches \<^verbatim>\<open>CalledProcessError\<close> only, and \<^verbatim>\<open>subprocess.run\<close> raises
  \<^verbatim>\<open>FileNotFoundError\<close> for a program that is not there: on a machine without \<^verbatim>\<open>gh\<close>,
  \<^verbatim>\<open>get_github_username\<close> raises, and the run ends with exit code 1 right after
  \<^verbatim>\<open>Setting up Git repository...\<close>, before any instruction is printed.
\<close>

theorem absent_gh_aborts_the_run:
  "\<not> installed world_no_gh ''gh''
   \<and> ''--no-github'' \<notin> set demo_argv
   \<and> fst (get_github_username world_no_gh empty_state) = Inl (FileNotFoundError ''gh'')
   \<and> fst (main world_no_gh demo_argv empty_state) = Inl (FileNotFoundError ''gh'')
   \<and> exit_code (main world_no_gh demo_argv empty_state) = 1
   \<and> last (out (snd (main world_no_gh demo_argv empty_state))) = ''Setting up Git repository...''"
proof -
  have a: "\<not> installed world_no_gh ''gh''"
    by (simp add: world_no_gh_def posix_world_def)
  obtain res st where r: "main world_no_gh demo_argv empty_state = (res, st)"
    by (cases "main world_no_gh demo_argv empty_state")
  with run_no_gh have "res = Inl (FileNotFoundError ''gh'')"
    and "out st = opening_lines ''acme-my-project'' @ [''Setting up Git repository...'']"
    by simp_all
  with r a show ?thesis
    by (simp add: exit_code_def get_github_username_absent demo_argv_def)
qed

subsection \<open>Steps do not read the output\<close>










lemma seq_Cons_bind: "seq (m # ms) = bind m (\<lambda>_. seq ms)"
  by (rule ext) (simp add: bind_def split: prod.splits sum.splits)







subsection \<open>\<^verbatim>\<open>setup_git\<close> without GitHub\<close>

lemma called_since_append: "calls (snd r) = calls s @ cs \<Longrightarrow> called_since s r = cs"
  by (simp add: called_since_def)

lemma setup_git_no_github_returns:
  assumes "setup_git w project_name False visibility s = (Inr (), s')"
  shows "out s'
           = out s @ [''Setting up Git repository...'']
             @ (if visibility \<notin> set [''public'', ''private'']
                then [invalid_visibility_warning visibility] else [])
             @ skipping_lines ''yourusername'' project_name
             @ [''\<newline>Git repository initialized with initial commit.'']
         \<and> calls s'
           = calls s @ [[''git'', ''init''], [''git'', ''add'', ''.''],
                        [''git'', ''commit'', ''-m'', ''Initial commit with project structure'']]
         \<and> fs s' ''README.md''
           = Some (File (readme_content ''yourusername'' project_name))"
  using assms
  by (auto simp: setup_git_def setup_git_steps_def step_defs Let_def split: if_splits)

subsection \<open>Claim C6: an unrecognised visibility\<close>




subsection \<open>Claim C10: \<^verbatim>\<open>setup_git\<close> without GitHub never runs \<^verbatim>\<open>gh\<close>\<close>

lemma readme_clone_url:
  "\<exists>pre post. readme_content u project_name
      = pre @ (''git clone https://github.com/'' @ u @ ''/'' @ project_name @ ''.git\<newline>'') @ post"
  unfolding readme_content_def
  by (rule exI [of _ "concat [''# '' @ project_name @ ''\<newline>\<newline>'',
             ''## Description\<newline>\<newline>'',
             ''A brief description of the project.\<newline>\<newline>'',
             ''## Installation\<newline>\<newline>'',
             ''```bash\<newline>'',
             ''# Clone the repository\<newline>'']"], rule exI [of _ "concat [
             ''cd '' @ project_name @ ''\<newline>\<newline>'',
             ''# Create and activate virtual environment\<newline>'',
             ''python -m venv .venv\<newline>'',
             ''source .venv/bin/activate  # On Windows: .venv'' @ [CHR 0x5C] @ ''Scripts''
               @ [CHR 0x5C] @ ''activate\<newline>\<newline>'',
             ''# Install dependencies\<newline>'',
             ''pip install -r requirements.txt\<newline>'',
             ''```\<newline>\<newline>'',
             ''## Usage\<newline>\<newline>'',
             ''```python\<newline>'',
             ''from '' @ replace_hyphens project_name @ ''.main import main\<newline>\<newline>'',
             ''main()\<newline>'',
             ''```\<newline>'']"]) simp

text \<open>
  Claim C10. With \<^verbatim>\<open>use_github\<close> false, \<^verbatim>\<open>setup_git\<close> runs no \<^verbatim>\<open>gh\<close> command at all,
  whether it returns or not: the account query is skipped. When it returns, the readme
  holds the clone address of the placeholder account \<^verbatim>\<open>yourusername\<close>, and the printed
  instructions name the same account.
\<close>

theorem no_github_never_runs_gh:
  "(\<forall>c \<in> set (called_since s (setup_git w project_name False visibility s)).
       take 1 c \<noteq> [''gh''])
   \<and> (fst (setup_git w project_name False visibility s) = Inr () \<longrightarrow>
        (\<exists>pre post. fs (snd (setup_git w project_name False visibility s)) ''README.md''
            = Some (File (pre @ (''git clone https://github.com/yourusername/'' @ project_name
                                  @ ''.git\<newline>'') @ post)))
        \<and> ''   git remote add origin https://github.com/yourusername/'' @ project_name @ ''.git''
            \<in> set (printed_since s (setup_git w project_name False visibility s)))"
proof (intro conjI impI)
  let ?r = "setup_git w project_name False visibility s"
  from appendsD [OF appends_setup_git_no_github, of w project_name visibility s]
  obtain ls cs where cs: "calls (snd ?r) = calls s @ cs"
    "set cs \<subseteq> {[''git'', ''init''], [''git'', ''add'', ''.''],
               [''git'', ''commit'', ''-m'', ''Initial commit with project structure'']}"
    by blast
  from cs(1) have "called_since s ?r = cs" by (rule called_since_append)
  with cs(2) show "\<forall>c \<in> set (called_since s ?r). take 1 c \<noteq> [''gh'']"
    by auto
next
  let ?r = "setup_git w project_name False visibility s"
  assume "fst ?r = Inr ()"
  then have r: "?r = (Inr (), snd ?r)" by (metis prod.collapse)
  note ret = setup_git_no_github_returns [OF r]
  from ret readme_clone_url [of "''yourusername''" project_name]
  show "\<exists>pre post. fs (snd ?r) ''README.md''
            = Some (File (pre @ (''git clone https://github.com/yourusername/'' @ project_name
                                  @ ''.git\<newline>'') @ post))"
    by auto
  from ret have "printed_since s ?r = [''Setting up Git repository...'']
             @ (if visibility \<notin> set [''public'', ''private'']
                then [invalid_visibility_warning visibility] else [])
             @ skipping_lines ''yourusername'' project_name
             @ [''\<newline>Git repository initialized with initial commit.'']"
    by (intro printed_since_append) simp
  then show "''   git remote add origin https://github.com/yourusername/'' @ project_name @ ''.git''
            \<in> set (printed_since s ?r)"
    by (simp add: skipping_lines_def manual_steps_def)
qed

lemma setup_git_no_github_all_ok:
  "fst (setup_git (world_all_ok ''my_project'') ''acme-my-project'' False ''private'' empty_state)
     = Inr ()"
  by (simp add: run_defs world_all_ok_def)

text \<open>The theorem in an empty directory with every program working.\<close>

theorem no_github_never_runs_gh_witness:
  "called_since empty_state
     (setup_git (world_all_ok ''my_project'') ''acme-my-project'' False ''private'' empty_state)
     = [[''git'', ''init''], [''git'', ''add'', ''.''],
        [''git'', ''commit'', ''-m'', ''Initial commit with project structure'']]
   \<and> (\<exists>pre post.
        fs (snd (setup_git (world_all_ok ''my_project'') ''acme-my-project'' False ''private''
                   empty_state)) ''README.md''
          = Some (File (pre @ ''git clone https://github.com/yourusername/acme-my-project.git\<newline>''
                        @ post)))
   \<and> ''   git remote add origin https://github.com/yourusername/acme-my-project.git''
        \<in> set (printed_since empty_state
                 (setup_git (world_all_ok ''my_project'') ''acme-my-project'' False ''private''
                    empty_state))"
proof -
  let ?r = "setup_git (world_all_ok ''my_project'') ''acme-my-project'' False ''private''
              empty_state"
  have ok: "fst ?r = Inr ()" by (rule setup_git_no_github_all_ok)
  then have "?r = (Inr (), snd ?r)" by (metis prod.collapse)
  from setup_git_no_github_returns [OF this]
  have "calls (snd ?r) = calls empty_state @ [[''git'', ''init''], [''git'', ''add'', ''.''],
        [''git'', ''commit'', ''-m'', ''Initial commit with project structure'']]"
    by simp
  then have c: "called_since empty_state ?r = [[''git'', ''init''], [''git'', ''add'', ''.''],
        [''git'', ''commit'', ''-m'', ''Initial commit with project structure'']]"
    by (rule called_since_append)
  from no_github_never_runs_gh [of empty_state "world_all_ok ''my_project''"
      "''acme-my-project''" "''private''"] ok c
  show ?thesis by simp
qed

subsection \<open>Claim C9: a flag in the place of the prefix\<close>

lemma appends_setup_git: "appends UNIV (setup_git w project_name use_github visibility)"
  unfolding setup_git_def setup_git_steps_def
  by (intro appends_intros appends_mono [OF appends_get_github_username]) simp_all

lemma appends_run_setup: "appends UNIV (run_setup w project_name use_github visibility)"
  unfolding run_setup_def
  by (intro appends_intros appends_setup_git appends_mono [OF appends_venv_commands]
        appends_mono [OF appends_create_project_structure]) simp_all

lemma appends_run_setup_no_github:
  "appends (set (venv_commands w)
            \<union> {[''git'', ''init''], [''git'', ''add'', ''.''],
               [''git'', ''commit'', ''-m'', ''Initial commit with project structure'']})
     (run_setup w project_name False visibility)"
  unfolding run_setup_def
  by (intro appends_intros appends_mono [OF appends_setup_git_no_github]
        appends_mono [OF appends_venv_commands]
        appends_mono [OF appends_create_project_structure]) auto

lemma run_setup_first_line:
  "\<exists>ls. printed_since s (run_setup w project_name use_github visibility s)
         = (''Setting up Python project: '' @ project_name) # ls"
proof -
  let ?rest = "seq [setup_virtual_environment w project_name,
        create_project_structure w project_name,
        setup_git w project_name use_github visibility,
        print_line (''\<newline>Project setup complete for '' @ project_name @ ''!''),
        print_line ''Don't forget to activate your virtual environment:'',
        if os_name w = ''nt''
        then print_line (''.venv'' @ [CHR 0x5C] @ ''Scripts'' @ [CHR 0x5C] @ ''activate'')
        else print_line ''source .venv/bin/activate'']"
  let ?s0 = "s\<lparr>out := out s @ [''Setting up Python project: '' @ project_name]\<rparr>"
  have "appends UNIV ?rest"
    by (intro appends_intros appends_setup_git appends_mono [OF appends_venv_commands]
        appends_mono [OF appends_create_project_structure]) simp_all
  from appendsD [OF this, of ?s0] obtain ls where "out (snd (?rest ?s0)) = out ?s0 @ ls"
    by blast
  moreover have "run_setup w project_name use_github visibility s = ?rest ?s0"
    by (simp add: run_setup_def print_line_def)
  ultimately have "out (snd (run_setup w project_name use_github visibility s))
      = out s @ (''Setting up Python project: '' @ project_name) # ls"
    by simp
  then have "printed_since s (run_setup w project_name use_github visibility s)
      = (''Setting up Python project: '' @ project_name) # ls"
    by (rule printed_since_append)
  then show ?thesis by blast
qed

text \<open>
  Claim C9. \<^verbatim>\<open>main\<close> takes \<^verbatim>\<open>sys.argv[1]\<close> as the prefix whatever it is. When it is
  \<^verbatim>\<open>--no-github\<close>, the project name starts with \<^verbatim>\<open>--no-github-\<close> and GitHub is
  switched off as well; when it is \<^verbatim>\<open>--public\<close>, the name starts with \<^verbatim>\<open>--public-\<close> and
  the visibility is public as well. The first line printed shows the name.
\<close>

theorem flag_taken_as_prefix:
  assumes len: "2 \<le> length argv"
  shows "(argv ! 1 = ''--no-github'' \<longrightarrow>
            main w argv = run_setup w (get_project_name w ''--no-github'') False
                            (if ''--public'' \<in> set argv then ''public'' else ''private''))
       \<and> (argv ! 1 = ''--public'' \<longrightarrow>
            main w argv = run_setup w (get_project_name w ''--public'')
                            (''--no-github'' \<notin> set argv) ''public'')
       \<and> hd (printed_since s (main w argv s))
           = ''Setting up Python project: '' @ argv ! 1 @ ''-''
               @ re_sub_seps (lower (current_folder w))"
proof (intro conjI impI)
  from len have mem: "argv ! 1 \<in> set argv" by simp
  { assume a: "argv ! 1 = ''--no-github''"
    with mem have "''--no-github'' \<in> set argv" by simp
    with a len show "main w argv = run_setup w (get_project_name w ''--no-github'') False
                            (if ''--public'' \<in> set argv then ''public'' else ''private'')"
      by (simp add: main_run_setup) }
  { assume a: "argv ! 1 = ''--public''"
    with mem have "''--public'' \<in> set argv" by simp
    with a len show "main w argv = run_setup w (get_project_name w ''--public'')
                            (''--no-github'' \<notin> set argv) ''public''"
      by (simp add: main_run_setup) }
  from run_setup_first_line [of s w "get_project_name w (argv ! 1)" "''--no-github'' \<notin> set argv"
      "if ''--public'' \<in> set argv then ''public'' else ''private''"] len
  show "hd (printed_since s (main w argv s))
           = ''Setting up Python project: '' @ argv ! 1 @ ''-''
               @ re_sub_seps (lower (current_folder w))"
    by (auto simp: main_run_setup get_project_name_def)
qed

lemma flag_project_name:
  "get_project_name (world_all_ok ''my_project'') ''--no-github'' = ''--no-github-my-project''"
  by (simp add: get_project_name_def world_all_ok_def posix_world_def lower_def py_lower_char_def
        py_isupper_def is_sep_def py_isspace_def)

text \<open>The theorem for \<^verbatim>\<open>setup_python_project.py --no-github\<close> in the directory \<^verbatim>\<open>my_project\<close>.\<close>

theorem flag_taken_as_prefix_witness:
  "main (world_all_ok ''my_project'') demo_argv_flag
     = run_setup (world_all_ok ''my_project'') ''--no-github-my-project'' False ''private''
   \<and> hd (printed_since empty_state (main (world_all_ok ''my_project'') demo_argv_flag empty_state))
       = ''Setting up Python project: --no-github-my-project''"
proof -
  have len: "2 \<le> length demo_argv_flag" by (simp add: demo_argv_flag_def)
  have a: "demo_argv_flag ! 1 = ''--no-github''" and b: "''--public'' \<notin> set demo_argv_flag"
    by (simp_all add: demo_argv_flag_def)
  have a': "demo_argv_flag ! Suc 0 = ''--no-github''"
    by (simp add: demo_argv_flag_def)
  have f: "re_sub_seps (lower (current_folder (world_all_ok ''my_project''))) = ''my-project''"
    by (simp add: world_all_ok_def posix_world_def lower_def py_lower_char_def
        py_isupper_def is_sep_def py_isspace_def)
  note inst = flag_taken_as_prefix [OF len, of "world_all_ok ''my_project''" empty_state]
  from inst a have "main (world_all_ok ''my_project'') demo_argv_flag
      = run_setup (world_all_ok ''my_project'')
          (get_project_name (world_all_ok ''my_project'') ''--no-github'') False
          (if ''--public'' \<in> set demo_argv_flag then ''public'' else ''private'')"
    by blast
  with b have 1: "main (world_all_ok ''my_project'') demo_argv_flag
     = run_setup (world_all_ok ''my_project'') ''--no-github-my-project'' False ''private''"
    by (simp add: flag_project_name)
  from inst have "hd (printed_since empty_state
                        (main (world_all_ok ''my_project'') demo_argv_flag empty_state))
      = ''Setting up Python project: '' @ demo_argv_flag ! 1 @ ''-''
          @ re_sub_seps (lower (current_folder (world_all_ok ''my_project'')))"
    by blast
  then have 2: "hd (printed_since empty_state
                        (main (world_all_ok ''my_project'') demo_argv_flag empty_state))
       = ''Setting up Python project: --no-github-my-project''"
    by (simp add: a' f)
  from 1 2 show ?thesis by blast
qed

subsection \<open>Claim C7: the exit code\<close>

lemma no_exitI: "(\<And>s n. fst (m s) \<noteq> Inl (SystemExit n)) \<Longrightarrow> no_exit m"
  by (simp add: no_exit_def)

lemma no_exitD: "no_exit m \<Longrightarrow> fst (m s) \<noteq> Inl (SystemExit n)"
  by (simp add: no_exit_def)

lemma no_exit_ret: "no_exit (ret x)"
  by (simp add: no_exit_def ret_def)

lemma no_exit_print_line: "no_exit (print_line x)"
  by (simp add: no_exit_def print_line_def)

lemma no_exit_subprocess_run: "no_exit (subprocess_run w prog args)"
  by (simp add: no_exit_def subprocess_run_def Let_def)

lemma no_exit_bind:
  assumes "no_exit m" and "\<And>x. no_exit (f x)"
  shows "no_exit (bind m f)"
proof (rule no_exitI)
  fix s n
  show "fst (bind m f s) \<noteq> Inl (SystemExit n)"
    using no_exitD [OF assms(1), of s n] no_exitD [OF assms(2), of _ _ n]
    by (cases "m s") (auto simp: bind_def split: sum.splits)
qed

lemma no_exit_run: "no_exit (run w prog args)"
  by (simp add: run_def no_exit_bind no_exit_subprocess_run no_exit_ret)

lemma no_exit_mkdirs: "no_exit (mkdirs w qs)"
proof (rule no_exitI)
  fix s n
  show "fst (mkdirs w qs s) \<noteq> Inl (SystemExit n)"
    by (induction w qs s rule: mkdirs.induct)
       (auto split: option.splits node.splits list.splits)
qed

lemma no_exit_makedirs: "no_exit (makedirs w p)"
  by (simp add: makedirs_def no_exit_mkdirs)

lemma no_exit_write_file: "no_exit (write_file w p content)"
  by (simp add: no_exit_def write_file_def split: option.splits)

lemma no_exit_seq_Nil: "no_exit (seq [])"
  by (simp add: no_exit_def)

lemma no_exit_seq_Cons: "no_exit m \<Longrightarrow> no_exit (seq ms) \<Longrightarrow> no_exit (seq (m # ms))"
  by (simp add: seq_Cons_bind no_exit_bind)

lemma no_exit_seq_prints: "no_exit (seq (map print_line ls))"
  by (simp add: no_exit_def seq_prints)

lemma no_exit_if: "no_exit a \<Longrightarrow> no_exit b \<Longrightarrow> no_exit (if c then a else b)"
  by simp

lemma no_exit_try:
  assumes "no_exit body" and "\<And>cmd rc. no_exit (handler cmd rc)"
  shows "no_exit (try_except_CalledProcessError body handler)"
proof (rule no_exitI)
  fix s n
  show "fst (try_except_CalledProcessError body handler s) \<noteq> Inl (SystemExit n)"
    using no_exitD [OF assms(1), of s n] no_exitD [OF assms(2), of _ _ _ n]
    by (cases "body s")
       (auto simp: try_except_CalledProcessError_def split: sum.splits exn.splits)
qed

lemma no_exit_get_github_username: "no_exit (get_github_username w)"
  by (simp add: no_exit_def get_github_username_def subprocess_run_def Let_def)

lemmas no_exit_intros =
  no_exit_ret no_exit_print_line no_exit_run no_exit_makedirs no_exit_write_file no_exit_bind
  no_exit_seq_Nil no_exit_seq_Cons no_exit_seq_prints no_exit_if no_exit_try
  no_exit_get_github_username

lemma no_exit_run_setup: "no_exit (run_setup w project_name use_github visibility)"
  unfolding run_setup_def setup_virtual_environment_def create_project_structure_def
    setup_git_def setup_git_steps_def Let_def
  by (intro no_exit_intros)

text \<open>
  Claim C7. Without an argument after the program name, \<^verbatim>\<open>main\<close> prints the error and
  the usage line and exits with code 1; nothing else has happened: no command was run and
  no file written. With a prefix, the exit code is 0 when \<^verbatim>\<open>main\<close> returns, whichever
  path it took, and 1 when an exception ends it.
\<close>

theorem exit_code_of_main:
  "(length argv < 2 \<longrightarrow>
      main w argv s
        = (Inl (SystemExit 1),
           s\<lparr>out := out s @ [''Error: Missing prefix argument.'',
                ''Usage: ./setup_python_project.py <prefix> [--no-github] [--public]'']\<rparr>)
      \<and> exit_code (main w argv s) = 1)
   \<and> (2 \<le> length argv \<longrightarrow>
        (fst (main w argv s) = Inr () \<longrightarrow> exit_code (main w argv s) = 0)
        \<and> (fst (main w argv s) \<noteq> Inr () \<longrightarrow> exit_code (main w argv s) = 1))"
proof (intro conjI impI)
  assume "length argv < 2"
  then show m: "main w argv s
        = (Inl (SystemExit 1),
           s\<lparr>out := out s @ [''Error: Missing prefix argument.'',
                ''Usage: ./setup_python_project.py <prefix> [--no-github] [--public]'']\<rparr>)"
    by (simp add: main_def print_line_def sys_exit_def raise_def)
  show "exit_code (main w argv s) = 1"
    by (simp add: m exit_code_def)
next
  assume "fst (main w argv s) = Inr ()"
  then show "exit_code (main w argv s) = 0" by (rule exit_code_Inr)
next
  assume len: "2 \<le> length argv" and ne: "fst (main w argv s) \<noteq> Inr ()"
  then obtain e where e: "fst (main w argv s) = Inl e"
    by (cases "fst (main w argv s)") auto
  from len no_exitD [OF no_exit_run_setup] e have "\<And>n. e \<noteq> SystemExit n"
    by (auto simp: main_run_setup)
  with e show "exit_code (main w argv s) = 1"
    by (cases e) (auto simp: exit_code_def)
qed

text \<open>
  The theorem for a call without a prefix, for a run in which \<^verbatim>\<open>gh repo create\<close> fails
  and the run goes on to its end, and for a run that an exception ends.
\<close>

theorem exit_code_of_main_witness:
  "exit_code (main (world_all_ok ''my_project'') [''setup_python_project.py''] empty_state) = 1
   \<and> calls (snd (main (world_all_ok ''my_project'') [''setup_python_project.py''] empty_state)) = []
   \<and> exit_code (main world_create_fails demo_argv empty_state) = 0
   \<and> exit_code (main world_no_gh demo_argv empty_state) = 1"
proof -
  have short: "length [''setup_python_project.py''] < 2" by simp
  have len: "2 \<le> length demo_argv" by (simp add: demo_argv_def)
  have ok: "fst (main world_create_fails demo_argv empty_state) = Inr ()"
    using run_create_fails by (simp split: prod.splits)
  have bad: "fst (main world_no_gh demo_argv empty_state) \<noteq> Inr ()"
    using run_no_gh by (simp split: prod.splits)
  from exit_code_of_main [of "[''setup_python_project.py'']" "world_all_ok ''my_project''"
      empty_state] short
  have eq: "main (world_all_ok ''my_project'') [''setup_python_project.py''] empty_state
        = (Inl (SystemExit 1),
           empty_state\<lparr>out := out empty_state @ [''Error: Missing prefix argument.'',
                ''Usage: ./setup_python_project.py <prefix> [--no-github] [--public]'']\<rparr>)"
    and 1: "exit_code (main (world_all_ok ''my_project'') [''setup_python_project.py'']
             empty_state) = 1"
    by blast+
  have 2: "calls (snd (main (world_all_ok ''my_project'') [''setup_python_project.py'']
             empty_state)) = []"
    unfolding eq by (simp add: empty_state_def)
  from exit_code_of_main [of demo_argv world_create_fails empty_state] len ok
  have 3: "exit_code (main world_create_fails demo_argv empty_state) = 0" by blast
  from exit_code_of_main [of demo_argv world_no_gh empty_state] len bad
  have 4: "exit_code (main world_no_gh demo_argv empty_state) = 1" by blast
  from 1 2 3 4 show ?thesis by blast
qed

subsection \<open>Claim C5: a run without GitHub\<close>

lemma skipping_lines_once_all:
  "list_all (\<lambda>l. count_list
           (opening_lines project_name @ [''Setting up Git repository...'']
            @ skipping_lines u project_name
            @ [''\<newline>Git repository initialized with initial commit.'']
            @ closing_lines w project_name) l = 1) (skipping_lines u project_name)"
  by (simp add: skipping_lines_def manual_steps_def opening_lines_def closing_lines_def)

lemma narratesI:
  "(\<And>s. \<exists>k\<le>length ls. out (snd (m s)) = out s @ take k ls
               \<and> (\<forall>x. fst (m s) = Inr x \<longrightarrow> k = length ls)) \<Longrightarrow> narrates ls m"
  by (simp add: narrates_def)

lemma narratesD:
  "narrates ls m \<Longrightarrow> \<exists>k\<le>length ls. out (snd (m s)) = out s @ take k ls
               \<and> (\<forall>x. fst (m s) = Inr x \<longrightarrow> k = length ls)"
  by (simp add: narrates_def)

lemma narrates_quiet: "(\<And>s. out (snd (m s)) = out s) \<Longrightarrow> narrates [] m"
  by (simp add: narrates_def)

lemma narrates_ret: "narrates [] (ret x)"
  by (rule narrates_quiet) (simp add: ret_def)

lemma narrates_print_line: "narrates [x] (print_line x)"
  by (rule narratesI, rule exI [of _ 1]) (simp add: print_line_def)

lemma narrates_run: "narrates [] (run w prog args)"
  by (rule narrates_quiet)
     (simp add: run_def bind_def ret_def subprocess_run_def Let_def)

lemma narrates_makedirs: "narrates [] (makedirs w p)"
  by (rule narrates_quiet) (simp add: makedirs_def mkdirs_frame)

lemma narrates_write_file: "narrates [] (write_file w p content)"
  by (rule narrates_quiet) (simp add: write_file_def split: option.splits)

lemma narrates_bind:
  assumes m: "narrates l1 m" and f: "\<And>x. narrates l2 (f x)"
  shows "narrates (l1 @ l2) (bind m f)"
proof (rule narratesI)
  fix s
  from narratesD [OF m, of s] obtain k1 where
    k1: "k1 \<le> length l1" "out (snd (m s)) = out s @ take k1 l1"
        "\<And>x. fst (m s) = Inr x \<Longrightarrow> k1 = length l1"
    by blast
  show "\<exists>k\<le>length (l1 @ l2). out (snd (bind m f s)) = out s @ take k (l1 @ l2)
          \<and> (\<forall>x. fst (bind m f s) = Inr x \<longrightarrow> k = length (l1 @ l2))"
  proof (cases "m s")
    case (Pair r s1)
    show ?thesis
    proof (cases r)
      case (Inl e)
      with Pair k1(1,2) show ?thesis
        by (intro exI [of _ k1]) (simp add: bind_def)
    next
      case (Inr x)
      with Pair k1(3) have full: "k1 = length l1" by simp
      from narratesD [OF f, of x s1] obtain k2 where
        k2: "k2 \<le> length l2" "out (snd (f x s1)) = out s1 @ take k2 l2"
            "\<And>y. fst (f x s1) = Inr y \<Longrightarrow> k2 = length l2"
        by blast
      from Pair Inr k1(2) k2 full show ?thesis
        by (intro exI [of _ "length l1 + k2"]) (auto simp: bind_def)
    qed
  qed
qed

lemma narrates_seq_Nil: "narrates [] (seq [])"
  by (rule narrates_quiet) simp

lemma narrates_seq_Cons:
  "narrates l1 m \<Longrightarrow> narrates l2 (seq ms) \<Longrightarrow> narrates (l1 @ l2) (seq (m # ms))"
  by (simp add: seq_Cons_bind narrates_bind)

lemma narrates_seq_prints: "narrates ls (seq (map print_line ls))"
  by (rule narratesI, rule exI [of _ "length ls"]) (simp add: seq_prints)

lemma narrates_if_print:
  "narrates [if c then a else b] (if c then print_line a else print_line b)"
  by (simp add: narrates_print_line)

lemma narrates_eq: "narrates ls m \<Longrightarrow> ls = ls' \<Longrightarrow> narrates ls' m"
  by simp

lemmas narrates_intros =
  narrates_seq_Cons narrates_seq_Nil narrates_seq_prints narrates_if_print narrates_print_line
  narrates_run narrates_makedirs narrates_write_file narrates_ret narrates_bind

lemma bind_ret: "bind (ret x) f = f x"
  by (rule ext) (simp add: bind_def ret_def)

lemma narrates_run_setup_no_github:
  assumes "visibility = ''public'' \<or> visibility = ''private''"
  shows "narrates
           (opening_lines project_name @ [''Setting up Git repository...'']
            @ skipping_lines ''yourusername'' project_name
            @ [''\<newline>Git repository initialized with initial commit.'']
            @ closing_lines w project_name)
           (run_setup w project_name False visibility)"
proof -
  from assms have v: "(if visibility \<notin> set [''public'', ''private'']
           then bind (print_line (invalid_visibility_warning visibility))
                  (\<lambda>_. ret ''private'')
           else ret visibility) = ret visibility"
    by auto
  show ?thesis
    unfolding run_setup_def setup_virtual_environment_def create_project_structure_def
      setup_git_def setup_git_steps_def Let_def v if_False bind_ret
    by (rule narrates_eq, (rule narrates_intros)+)
       (simp add: opening_lines_def closing_lines_def)
qed

lemma count_list_take: "count_list (take k xs) x \<le> count_list xs x"
proof (induction xs arbitrary: k)
  case Nil
  show ?case by simp
next
  case (Cons y ys)
  show ?case
  proof (cases k)
    case 0
    then show ?thesis by simp
  next
    case (Suc j)
    with Cons [of j] show ?thesis by simp
  qed
qed

text \<open>
  Claim C5. In every run with \<^verbatim>\<open>--no-github\<close> among the arguments, no \<^verbatim>\<open>gh\<close> command
  (so no repository creation) and no \<^verbatim>\<open>git push\<close> is run, and no line of the manual
  instructions is printed twice, whether the run returns or an exception ends it. When
  the run returns, the lines printed are the ones listed, and each line of the manual
  instructions is among them exactly once.
\<close>

theorem no_github_run_prints_instructions_once:
  assumes len: "2 \<le> length argv" and flag: "''--no-github'' \<in> set argv"
    and pn: "project_name = get_project_name w (argv ! 1)"
  shows "(\<forall>c \<in> set (called_since s (main w argv s)).
            take 1 c \<noteq> [''gh''] \<and> c \<noteq> [''git'', ''push'', ''-u'', ''origin'', ''main''])
     \<and> (\<forall>l \<in> set (skipping_lines ''yourusername'' project_name).
            count_list (printed_since s (main w argv s)) l \<le> 1)
     \<and> (fst (main w argv s) = Inr () \<longrightarrow>
          printed_since s (main w argv s)
            = opening_lines project_name @ [''Setting up Git repository...'']
              @ skipping_lines ''yourusername'' project_name
              @ [''\<newline>Git repository initialized with initial commit.'']
              @ closing_lines w project_name
          \<and> (\<forall>l \<in> set (skipping_lines ''yourusername'' project_name).
                count_list (printed_since s (main w argv s)) l = 1))"
proof -
  let ?vis = "if ''--public'' \<in> set argv then ''public'' else ''private''"
  let ?lines = "opening_lines project_name @ [''Setting up Git repository...'']
              @ skipping_lines ''yourusername'' project_name
              @ [''\<newline>Git repository initialized with initial commit.'']
              @ closing_lines w project_name"
  have m: "main w argv = run_setup w project_name False ?vis"
    using len flag pn by (simp add: main_run_setup)
  have 1: "\<forall>c \<in> set (called_since s (main w argv s)).
            take 1 c \<noteq> [''gh''] \<and> c \<noteq> [''git'', ''push'', ''-u'', ''origin'', ''main'']"
  proof -
    from appendsD [OF appends_run_setup_no_github, of w project_name ?vis s]
    obtain cs where cs: "calls (snd (main w argv s)) = calls s @ cs"
      "set cs \<subseteq> set (venv_commands w)
            \<union> {[''git'', ''init''], [''git'', ''add'', ''.''],
               [''git'', ''commit'', ''-m'', ''Initial commit with project structure'']}"
      unfolding m by blast
    from cs(1) have "called_since s (main w argv s) = cs" by (rule called_since_append)
    moreover have "take 1 c \<noteq> [''gh''] \<and> c \<noteq> [''git'', ''push'', ''-u'', ''origin'', ''main'']"
      if "c \<in> set (venv_commands w)
            \<union> {[''git'', ''init''], [''git'', ''add'', ''.''],
               [''git'', ''commit'', ''-m'', ''Initial commit with project structure'']}" for c
      using that by (auto simp: venv_commands_def Let_def split: if_splits)
    ultimately show ?thesis
      using cs(2) by blast
  qed
  have "narrates ?lines (run_setup w project_name False ?vis)"
    by (rule narrates_run_setup_no_github) simp
  from narratesD [OF this, of s] obtain k where
    k: "out (snd (main w argv s)) = out s @ take k ?lines"
    and full: "fst (main w argv s) = Inr () \<Longrightarrow> k = length ?lines"
    unfolding m by blast
  from k have p: "printed_since s (main w argv s) = take k ?lines"
    by (rule printed_since_append)
  have once: "\<forall>l \<in> set (skipping_lines ''yourusername'' project_name). count_list ?lines l = 1"
    using skipping_lines_once_all [of project_name "''yourusername''" w]
    by (simp only: list_all_iff)
  have 2: "\<forall>l \<in> set (skipping_lines ''yourusername'' project_name).
            count_list (printed_since s (main w argv s)) l \<le> 1"
  proof
    fix l assume "l \<in> set (skipping_lines ''yourusername'' project_name)"
    with once have "count_list ?lines l = 1" by blast
    with count_list_take [of k ?lines l] show "count_list (printed_since s (main w argv s)) l \<le> 1"
      by (simp only: p)
  qed
  have 3: "printed_since s (main w argv s) = ?lines" if "fst (main w argv s) = Inr ()"
    using full [OF that] p by simp
  show ?thesis
  proof (intro conjI impI)
    show "\<forall>c \<in> set (called_since s (main w argv s)).
            take 1 c \<noteq> [''gh''] \<and> c \<noteq> [''git'', ''push'', ''-u'', ''origin'', ''main'']"
      by (rule 1)
    show "\<forall>l \<in> set (skipping_lines ''yourusername'' project_name).
            count_list (printed_since s (main w argv s)) l \<le> 1"
      by (rule 2)
  next
    assume ok: "fst (main w argv s) = Inr ()"
    then show q: "printed_since s (main w argv s) = ?lines" by (rule 3)
    show "\<forall>l \<in> set (skipping_lines ''yourusername'' project_name).
                count_list (printed_since s (main w argv s)) l = 1"
      unfolding q by (rule once)
  qed
qed

lemma run_no_github:
  "case main (world_all_ok ''my_project'') demo_argv_no_github empty_state of
     (res, st) \<Rightarrow>
       res = Inr ()
       \<and> calls st =
           [[''python3'', ''-m'', ''venv'', ''.venv''],
            [''.venv/bin/pip'', ''install'', ''--upgrade'', ''pip''],
            [''.venv/bin/pip'', ''install'', ''-r'', ''requirements-dev.txt''],
            [''git'', ''init''], [''git'', ''add'', ''.''],
            [''git'', ''commit'', ''-m'', ''Initial commit with project structure'']]"
  by (simp add: run_defs world_all_ok_def demo_argv_no_github_def)

text \<open>
  The theorem for \<^verbatim>\<open>setup_python_project.py acme --no-github\<close> in an empty directory
  \<^verbatim>\<open>my_project\<close> with every program working.
\<close>

theorem no_github_run_prints_instructions_once_witness:
  "called_since empty_state (main (world_all_ok ''my_project'') demo_argv_no_github empty_state)
     = [[''python3'', ''-m'', ''venv'', ''.venv''],
        [''.venv/bin/pip'', ''install'', ''--upgrade'', ''pip''],
        [''.venv/bin/pip'', ''install'', ''-r'', ''requirements-dev.txt''],
        [''git'', ''init''], [''git'', ''add'', ''.''],
        [''git'', ''commit'', ''-m'', ''Initial commit with project structure'']]
   \<and> count_list
        (printed_since empty_state
           (main (world_all_ok ''my_project'') demo_argv_no_github empty_state))
        ''You can manually create and connect to GitHub repository:'' = 1
   \<and> count_list
        (printed_since empty_state
           (main (world_all_ok ''my_project'') demo_argv_no_github empty_state))
        ''   git push -u origin main'' = 1"
proof -
  let ?w = "world_all_ok ''my_project''"
  let ?r = "main ?w demo_argv_no_github empty_state"
  have len: "2 \<le> length demo_argv_no_github"
    and flag: "''--no-github'' \<in> set demo_argv_no_github"
    by (simp_all add: demo_argv_no_github_def)
  have pn: "''acme-my-project'' = get_project_name ?w (demo_argv_no_github ! 1)"
    by (simp add: world_all_ok_def demo_argv_no_github_def demo_project_name)
  obtain res st where r: "?r = (res, st)" by (cases ?r)
  with run_no_github have ok: "fst ?r = Inr ()"
    and c: "calls (snd ?r) = calls empty_state
        @ [[''python3'', ''-m'', ''venv'', ''.venv''],
        [''.venv/bin/pip'', ''install'', ''--upgrade'', ''pip''],
        [''.venv/bin/pip'', ''install'', ''-r'', ''requirements-dev.txt''],
        [''git'', ''init''], [''git'', ''add'', ''.''],
        [''git'', ''commit'', ''-m'', ''Initial commit with project structure'']]"
    by (simp_all add: empty_state_def)
  note c' = called_since_append [OF c]
  have l1: "''You can manually create and connect to GitHub repository:''
              \<in> set (skipping_lines ''yourusername'' ''acme-my-project'')"
    and l2: "''   git push -u origin main''
              \<in> set (skipping_lines ''yourusername'' ''acme-my-project'')"
    by (simp_all add: skipping_lines_def manual_steps_def)
  from no_github_run_prints_instructions_once [OF len flag pn, of empty_state] ok l1 l2 c'
  show ?thesis by blast
qed

subsection \<open>Claim C8: \<^verbatim>\<open>create_project_structure\<close> run twice\<close>

lemma seq_Cons_returns:
  assumes "seq (m # ms) s = (Inr (), s')"
  obtains t where "m s = (Inr (), t)" and "seq ms t = (Inr (), s')"
  using assms by (cases "m s") (auto split: sum.splits)

lemma mkdirs_returns:
  "mkdirs w qs s = (Inr (), s') \<Longrightarrow>
     (\<forall>q \<in> set qs. fs s' q = Some Dir) \<and> (\<forall>q n. fs s q = Some n \<longrightarrow> fs s' q = Some n)"
proof (induction w qs s rule: mkdirs.induct)
  case (1 w s)
  then show ?case by simp
next
  case (2 w q qs s)
  show ?case
  proof (cases "fs s q")
    case None
    with "2.prems" have nr: "\<not> os_refuses w q"
      and r: "mkdirs w qs (s\<lparr>fs := (fs s)(q \<mapsto> Dir)\<rparr>) = (Inr (), s')"
      by (simp_all split: if_splits)
    from "2.IH"(1) [OF None nr r]
    have a: "\<forall>q \<in> set qs. fs s' q = Some Dir"
      and b: "\<And>q' n. ((fs s)(q \<mapsto> Dir)) q' = Some n \<Longrightarrow> fs s' q' = Some n"
      by simp_all
    from b [of q Dir] have "fs s' q = Some Dir" by simp
    moreover have "fs s' q' = Some n" if "fs s q' = Some n" for q' n
      using that None b [of q' n] by (cases "q' = q") simp_all
    ultimately show ?thesis using a by simp
  next
    case (Some n)
    show ?thesis
    proof (cases n)
      case Dir
      with Some "2.prems" have r: "mkdirs w qs s = (Inr (), s')" by simp
      from "2.IH"(2) [OF Some Dir r] Some Dir show ?thesis by auto
    next
      case (File c)
      with Some "2.prems" show ?thesis by (simp split: list.splits)
    qed
  qed
qed

lemma mkdirs_all_there:
  "\<forall>q \<in> set qs. fs s q = Some Dir \<Longrightarrow> mkdirs w qs s = (Inr (), s)"
  by (induction qs) simp_all

lemma write_file_returns:
  assumes "write_file w p content s = (Inr (), s')"
  shows "s' = s\<lparr>fs := (fs s)(p \<mapsto> File content)\<rparr>"
    and "\<forall>q \<in> set (parents p). fs s q = Some Dir"
    and "fs s p \<noteq> Some Dir" and "\<not> os_refuses w p"
  using assms
  by (auto simp: write_file_def find_None_iff split: option.splits if_splits)

lemma write_file_again:
  assumes "\<forall>q \<in> set (parents p). fs s q = Some Dir"
    and "fs s p = Some (File content)" and "\<not> os_refuses w p"
  shows "fst (write_file w p content s) = Inr ()"
    and "fs (snd (write_file w p content s)) = fs s"
proof -
  from assms(1) have "find (\<lambda>q. fs s q \<noteq> Some Dir) (parents p) = None"
    by (simp add: find_None_iff)
  with assms(2,3) have "write_file w p content s = (Inr (), s\<lparr>fs := (fs s)(p \<mapsto> File content)\<rparr>)"
    by (simp add: write_file_def)
  moreover from assms(2) have "(fs s)(p \<mapsto> File content) = fs s"
    by (simp add: fun_upd_idem)
  ultimately show "fst (write_file w p content s) = Inr ()"
    and "fs (snd (write_file w p content s)) = fs s"
    by simp_all
qed

lemma seq_settled:
  assumes "\<And>m t. m \<in> set ms \<Longrightarrow> fs t = F \<Longrightarrow> fst (m t) = Inr () \<and> fs (snd (m t)) = F"
    and "fs t = F"
  shows "fst (seq ms t) = Inr () \<and> fs (snd (seq ms t)) = F"
  using assms
proof (induction ms arbitrary: t)
  case Nil
  then show ?case by simp
next
  case (Cons m ms)
  from Cons.prems(1) [of m t] Cons.prems(2)
  have 1: "fst (m t) = Inr ()" and 2: "fs (snd (m t)) = F" by simp_all
  from 1 have "m t = (Inr (), snd (m t))" by (metis prod.collapse)
  then have "seq (m # ms) t = seq ms (snd (m t))" by (rule seq_Cons_Inr)
  moreover have "fst (seq ms (snd (m t))) = Inr () \<and> fs (snd (seq ms (snd (m t)))) = F"
    using Cons.prems(1) 2 by (intro Cons.IH) simp_all
  ultimately show ?case by simp
qed

lemma write_file_keeps_dirs:
  "write_file w p content s = (Inr (), s') \<Longrightarrow> fs s q = Some Dir \<Longrightarrow> fs s' q = Some Dir"
  using write_file_returns(1,3) [of w p content s s'] by (cases "q = p") auto

lemma write_file_keeps_files:
  "write_file w p content s = (Inr (), s') \<Longrightarrow> q \<noteq> p \<Longrightarrow> fs s' q = fs s q"
  using write_file_returns(1) [of w p content s s'] by simp

lemma write_file_written:
  "write_file w p content s = (Inr (), s') \<Longrightarrow> fs s' p = Some (File content)"
  using write_file_returns(1) [of w p content s s'] by simp

lemma makedirs_returns:
  "makedirs w p s = (Inr (), s') \<Longrightarrow>
     (\<forall>q \<in> set (parents p @ [p]). fs s' q = Some Dir)
     \<and> (\<forall>q n. fs s q = Some n \<longrightarrow> fs s' q = Some n)"
  unfolding makedirs_def by (rule mkdirs_returns)

lemma makedirs_again:
  assumes "\<forall>q \<in> set (parents p @ [p]). fs t q = Some Dir"
  shows "fst (makedirs w p t) = Inr () \<and> fs (snd (makedirs w p t)) = fs t"
  using mkdirs_all_there [OF assms, of w] by (simp add: makedirs_def)

lemma create_project_structure_again:
  assumes r: "create_project_structure w project_name s = (Inr (), s1)"
    and t: "fs t = fs s1"
  shows "fst (create_project_structure w project_name t) = Inr ()
         \<and> fs (snd (create_project_structure w project_name t)) = fs s1"
    and "fs s1 (''src/'' @ replace_hyphens project_name) = Some Dir"
    and "fs s1 ''tests'' = Some Dir" and "fs s1 ''docs'' = Some Dir"
    and "fs s1 ((''src/'' @ replace_hyphens project_name) @ ''/__init__.py'')
           = Some (File (init_py_content project_name))"
    and "fs s1 ((''src/'' @ replace_hyphens project_name) @ ''/main.py'')
           = Some (File (main_py_content project_name))"
    and "fs s1 ''tests/test_main.py'' = Some (File (test_main_py_content project_name))"
    and "fs s1 ''setup.py'' = Some (File (setup_py_content project_name))"
    and "fs s1 ''pyproject.toml'' = Some (File pyproject_toml_content)"
proof -
  let ?P = "''src/'' @ replace_hyphens project_name"
  let ?p1 = "?P @ ''/__init__.py''" and ?p2 = "?P @ ''/main.py''"
  let ?c1 = "init_py_content project_name" and ?c2 = "main_py_content project_name"
  let ?c3 = "test_main_py_content project_name" and ?c4 = "setup_py_content project_name"
  from r [unfolded create_project_structure_def Let_def]
  obtain s0 a b c d e f g h where
    p0: "print_line (''Creating project structure for '' @ project_name @ ''...'') s = (Inr (), s0)"
    and m1: "makedirs w ?P s0 = (Inr (), a)"
    and m2: "makedirs w ''tests'' a = (Inr (), b)"
    and m3: "makedirs w ''docs'' b = (Inr (), c)"
    and w1: "write_file w ?p1 ?c1 c = (Inr (), d)"
    and w2: "write_file w ?p2 ?c2 d = (Inr (), e)"
    and w3: "write_file w ''tests/test_main.py'' ?c3 e = (Inr (), f)"
    and w4: "write_file w ''setup.py'' ?c4 f = (Inr (), g)"
    and w5: "write_file w ''pyproject.toml'' pyproject_toml_content g = (Inr (), h)"
    and p1: "print_line ''Project structure created.'' h = (Inr (), s1)"
    by (elim seq_Cons_returns) simp
  from p1 have h: "fs s1 = fs h" by (auto simp: print_line_def)
  have keep: "fs s1 q = Some Dir" if "fs c q = Some Dir" for q
    using that w1 w2 w3 w4 w5 h by (simp add: write_file_keeps_dirs)
  have keep_b: "fs s1 q = Some Dir" if "fs b q = Some Dir" for q
    using that makedirs_returns [OF m3] keep by simp
  have keep_a: "fs s1 q = Some Dir" if "fs a q = Some Dir" for q
    using that makedirs_returns [OF m2] keep_b by simp
  have d1: "\<forall>q \<in> set (parents ?P @ [?P]). fs s1 q = Some Dir"
    using makedirs_returns [OF m1] keep_a by simp
  have d2: "\<forall>q \<in> set (parents ''tests'' @ [''tests'']). fs s1 q = Some Dir"
    using makedirs_returns [OF m2] keep_b by simp
  have d3: "\<forall>q \<in> set (parents ''docs'' @ [''docs'']). fs s1 q = Some Dir"
    using makedirs_returns [OF m3] keep by simp
  have f1: "fs s1 ?p1 = Some (File ?c1)"
    using write_file_written [OF w1] write_file_keeps_files [OF w2, of ?p1]
      write_file_keeps_files [OF w3, of ?p1] write_file_keeps_files [OF w4, of ?p1]
      write_file_keeps_files [OF w5, of ?p1] h
    by simp
  have f2: "fs s1 ?p2 = Some (File ?c2)"
    using write_file_written [OF w2]
      write_file_keeps_files [OF w3, of ?p2] write_file_keeps_files [OF w4, of ?p2]
      write_file_keeps_files [OF w5, of ?p2] h
    by simp
  have f3: "fs s1 ''tests/test_main.py'' = Some (File ?c3)"
    using write_file_written [OF w3] write_file_keeps_files [OF w4, of "''tests/test_main.py''"]
      write_file_keeps_files [OF w5, of "''tests/test_main.py''"] h
    by simp
  have f4: "fs s1 ''setup.py'' = Some (File ?c4)"
    using write_file_written [OF w4] write_file_keeps_files [OF w5, of "''setup.py''"] h
    by simp
  have f5: "fs s1 ''pyproject.toml'' = Some (File pyproject_toml_content)"
    using write_file_written [OF w5] h by simp
  have k1: "\<forall>q \<in> set (parents ?p1). fs s1 q = Some Dir"
    using write_file_returns(2) [OF w1] keep by simp
  have k2: "\<forall>q \<in> set (parents ?p2). fs s1 q = Some Dir"
    using write_file_returns(2) [OF w2] write_file_keeps_dirs [OF w2] write_file_keeps_dirs [OF w3]
      write_file_keeps_dirs [OF w4] write_file_keeps_dirs [OF w5] h by simp
  have k3: "\<forall>q \<in> set (parents ''tests/test_main.py''). fs s1 q = Some Dir"
    using write_file_returns(2) [OF w3] write_file_keeps_dirs [OF w3]
      write_file_keeps_dirs [OF w4] write_file_keeps_dirs [OF w5] h by simp
  have k4: "\<forall>q \<in> set (parents ''setup.py''). fs s1 q = Some Dir"
    by (simp add: parents_def)
  have k5: "\<forall>q \<in> set (parents ''pyproject.toml''). fs s1 q = Some Dir"
    by (simp add: parents_def)
  note ok = write_file_returns(4) [OF w1] write_file_returns(4) [OF w2]
    write_file_returns(4) [OF w3] write_file_returns(4) [OF w4] write_file_returns(4) [OF w5]
  have step: "fst (m u) = Inr () \<and> fs (snd (m u)) = fs s1"
    if "m \<in> set [print_line (''Creating project structure for '' @ project_name @ ''...''),
         makedirs w ?P, makedirs w ''tests'', makedirs w ''docs'',
         write_file w ?p1 ?c1, write_file w ?p2 ?c2,
         write_file w ''tests/test_main.py'' ?c3, write_file w ''setup.py'' ?c4,
         write_file w ''pyproject.toml'' pyproject_toml_content,
         print_line ''Project structure created.'']"
      and u: "fs u = fs s1" for m u
  proof -
    from that(1) consider
      "m = print_line (''Creating project structure for '' @ project_name @ ''...'')"
      | "m = makedirs w ?P" | "m = makedirs w ''tests''" | "m = makedirs w ''docs''"
      | "m = write_file w ?p1 ?c1" | "m = write_file w ?p2 ?c2"
      | "m = write_file w ''tests/test_main.py'' ?c3" | "m = write_file w ''setup.py'' ?c4"
      | "m = write_file w ''pyproject.toml'' pyproject_toml_content"
      | "m = print_line ''Project structure created.''"
      by auto
    then show ?thesis
    proof cases
      case 1 with u show ?thesis by (simp add: print_line_def)
    next
      case 2 with u d1 makedirs_again [of ?P u w] show ?thesis by simp
    next
      case 3 with u d2 makedirs_again [of "''tests''" u w] show ?thesis by simp
    next
      case 4 with u d3 makedirs_again [of "''docs''" u w] show ?thesis by simp
    next
      case 5 with u k1 f1 ok write_file_again [of ?p1 u ?c1 w] show ?thesis by simp
    next
      case 6 with u k2 f2 ok write_file_again [of ?p2 u ?c2 w] show ?thesis by simp
    next
      case 7 with u k3 f3 ok write_file_again [of "''tests/test_main.py''" u ?c3 w]
      show ?thesis by simp
    next
      case 8 with u k4 f4 ok write_file_again [of "''setup.py''" u ?c4 w] show ?thesis by simp
    next
      case 9 with u k5 f5 ok write_file_again [of "''pyproject.toml''" u pyproject_toml_content w]
      show ?thesis by simp
    next
      case 10 with u show ?thesis by (simp add: print_line_def)
    qed
  qed
  show "fst (create_project_structure w project_name t) = Inr ()
         \<and> fs (snd (create_project_structure w project_name t)) = fs s1"
    unfolding create_project_structure_def Let_def
    using step t by (rule seq_settled)
  from d1 show "fs s1 ?P = Some Dir" by simp
  from d2 show "fs s1 ''tests'' = Some Dir" by simp
  from d3 show "fs s1 ''docs'' = Some Dir" by simp
  show "fs s1 ?p1 = Some (File ?c1)" by (rule f1)
  show "fs s1 ?p2 = Some (File ?c2)" by (rule f2)
  show "fs s1 ''tests/test_main.py'' = Some (File ?c3)" by (rule f3)
  show "fs s1 ''setup.py'' = Some (File ?c4)" by (rule f4)
  show "fs s1 ''pyproject.toml'' = Some (File pyproject_toml_content)" by (rule f5)
qed

text \<open>
  Claim C8. For every project name and every starting directory, running
  \<^verbatim>\<open>create_project_structure\<close> twice gives the result and the file system of running it
  once, and runs no command: a second run after one that returned meets its directories
  (\<^verbatim>\<open>exist_ok\<close>: \<^verbatim>\<open>os.makedirs\<close> on directories that are there returns and changes
  nothing) and writes each file again with the contents it has. After a run that
  returned, the three directories are there and each of the five files holds the
  contents that the project name determines, whatever was there before. Only the two
  progress lines are printed once more.
\<close>

theorem create_project_structure_twice:
  "fst (twice (create_project_structure w project_name) s)
     = fst (create_project_structure w project_name s)
   \<and> fs (snd (twice (create_project_structure w project_name) s))
     = fs (snd (create_project_structure w project_name s))
   \<and> calls (snd (twice (create_project_structure w project_name) s)) = calls s
   \<and> ((\<forall>q \<in> set (parents p @ [p]). fs s q = Some Dir) \<longrightarrow>
         fst (makedirs w p s) = Inr () \<and> fs (snd (makedirs w p s)) = fs s)
   \<and> (fst (create_project_structure w project_name s) = Inr () \<longrightarrow>
        fs (snd (create_project_structure w project_name s))
           (''src/'' @ replace_hyphens project_name) = Some Dir
        \<and> fs (snd (create_project_structure w project_name s)) ''tests'' = Some Dir
        \<and> fs (snd (create_project_structure w project_name s)) ''docs'' = Some Dir
        \<and> fs (snd (create_project_structure w project_name s))
             ((''src/'' @ replace_hyphens project_name) @ ''/__init__.py'')
            = Some (File (init_py_content project_name))
        \<and> fs (snd (create_project_structure w project_name s))
             ((''src/'' @ replace_hyphens project_name) @ ''/main.py'')
            = Some (File (main_py_content project_name))
        \<and> fs (snd (create_project_structure w project_name s)) ''tests/test_main.py''
            = Some (File (test_main_py_content project_name))
        \<and> fs (snd (create_project_structure w project_name s)) ''setup.py''
            = Some (File (setup_py_content project_name))
        \<and> fs (snd (create_project_structure w project_name s)) ''pyproject.toml''
            = Some (File pyproject_toml_content))"
proof -
  let ?c = "create_project_structure w project_name"
  have quiet: "calls (snd (?c u)) = calls u" for u
    using appendsD [OF appends_create_project_structure, of w project_name u] by simp
  obtain r1 s1 where c: "?c s = (r1, s1)" by (cases "?c s")
  have 1: "fst (twice ?c s) = fst (?c s) \<and> fs (snd (twice ?c s)) = fs (snd (?c s))
           \<and> calls (snd (twice ?c s)) = calls s"
  proof (cases r1)
    case (Inl e)
    with c have "twice ?c s = ?c s" by (simp add: twice_def)
    with quiet show ?thesis by simp
  next
    case (Inr u)
    with c have c': "?c s = (Inr (), s1)" by simp
    then have t: "twice ?c s = ?c s1"
      by (simp add: twice_def split: prod.splits sum.splits)
    from create_project_structure_again(1) [OF c' refl] quiet [of s1] quiet [of s] c'
    show ?thesis by (simp add: t)
  qed
  have 2: "fst (makedirs w p s) = Inr () \<and> fs (snd (makedirs w p s)) = fs s"
    if "\<forall>q \<in> set (parents p @ [p]). fs s q = Some Dir"
    using that by (rule makedirs_again)
  have 3: "fs (snd (?c s)) (''src/'' @ replace_hyphens project_name) = Some Dir
        \<and> fs (snd (?c s)) ''tests'' = Some Dir
        \<and> fs (snd (?c s)) ''docs'' = Some Dir
        \<and> fs (snd (?c s)) ((''src/'' @ replace_hyphens project_name) @ ''/__init__.py'')
            = Some (File (init_py_content project_name))
        \<and> fs (snd (?c s)) ((''src/'' @ replace_hyphens project_name) @ ''/main.py'')
            = Some (File (main_py_content project_name))
        \<and> fs (snd (?c s)) ''tests/test_main.py''
            = Some (File (test_main_py_content project_name))
        \<and> fs (snd (?c s)) ''setup.py'' = Some (File (setup_py_content project_name))
        \<and> fs (snd (?c s)) ''pyproject.toml'' = Some (File pyproject_toml_content)"
    if "fst (?c s) = Inr ()"
  proof -
    from that c have c': "?c s = (Inr (), s1)" by simp
    from create_project_structure_again(2-9) [OF c' refl] show ?thesis
      by (simp add: c')
  qed
  from 1 2 3 show ?thesis by blast
qed

lemma create_project_structure_all_ok:
  "fst (create_project_structure (world_all_ok ''my_project'') ''acme-my-project'' empty_state)
     = Inr ()"
  by (simp add: run_defs world_all_ok_def)

text \<open>The theorem in an empty directory, for the project \<^verbatim>\<open>acme-my-project\<close>.\<close>

theorem create_project_structure_twice_witness:
  "fst (twice (create_project_structure (world_all_ok ''my_project'') ''acme-my-project'')
          empty_state) = Inr ()
   \<and> fs (snd (twice (create_project_structure (world_all_ok ''my_project'') ''acme-my-project'')
                empty_state)) ''src/acme_my_project'' = Some Dir
   \<and> fs (snd (twice (create_project_structure (world_all_ok ''my_project'') ''acme-my-project'')
                empty_state)) ''src/acme_my_project/__init__.py''
       = Some (File (init_py_content ''acme-my-project''))
   \<and> fs (snd (twice (create_project_structure (world_all_ok ''my_project'') ''acme-my-project'')
                empty_state)) ''setup.py''
       = Some (File (setup_py_content ''acme-my-project''))"
proof -
  let ?c = "create_project_structure (world_all_ok ''my_project'') ''acme-my-project''"
  note inst = create_project_structure_twice [of "world_all_ok ''my_project''"
      "''acme-my-project''" empty_state "''tests''"]
  have ok: "fst (?c empty_state) = Inr ()" by (rule create_project_structure_all_ok)
  from inst ok have 1: "fst (twice ?c empty_state) = Inr ()" by simp
  from inst have 2: "fs (snd (twice ?c empty_state)) = fs (snd (?c empty_state))" by blast
  from inst ok have "fs (snd (?c empty_state)) (''src/'' @ replace_hyphens ''acme-my-project'')
      = Some Dir"
    and "fs (snd (?c empty_state))
           ((''src/'' @ replace_hyphens ''acme-my-project'') @ ''/__init__.py'')
      = Some (File (init_py_content ''acme-my-project''))"
    and "fs (snd (?c empty_state)) ''setup.py'' = Some (File (setup_py_content ''acme-my-project''))"
    by blast+
  then have 3: "fs (snd (?c empty_state)) ''src/acme_my_project'' = Some Dir"
    and 4: "fs (snd (?c empty_state)) ''src/acme_my_project/__init__.py''
      = Some (File (init_py_content ''acme-my-project''))"
    and 5: "fs (snd (?c empty_state)) ''setup.py'' = Some (File (setup_py_content ''acme-my-project''))"
    by (simp_all add: replace_hyphens_def)
  from 1 3 4 5 show ?thesis unfolding 2 by blast
qed

end
